theory Spec2Isabelle
  imports Complex_Main "HOL-Library.Sublist" "HOL-Library.AList"
begin

section \<open>JavaScript values and the built-ins the mapper calls\<close>

text \<open>
  The repository holds two builds of the React component
  \<^verbatim>\<open>HubSpotRelationshipMapper\<close>: the file \<^verbatim>\<open>src/HubSpotRelationshipMapper.js\<close>,
  which \<^verbatim>\<open>App.js\<close> imports, and an earlier build that reads its files through
  \<^verbatim>\<open>window.fs\<close>. The definitions below follow the memoised computations of the
  former, name by name; the two definitions taken from the earlier build say so.
\<close>

text \<open>
  The rows handed to \<^verbatim>\<open>HubSpotRelationshipMapper\<close> come from PapaParse with
  \<^verbatim>\<open>dynamicTyping: true\<close>: a cell is a string, a number, a boolean or
  \<^verbatim>\<open>null\<close>, and a column that is absent reads as \<^verbatim>\<open>undefined\<close>.
  Numbers are taken as exact reals: rounding and the infinities of IEEE doubles are not
  modelled. \<^verbatim>\<open>NaN\<close> is a value of its own; a numeric result that may be NaN
  is a \<open>real option\<close> with \<open>None\<close> for it. A string is a list of 8-bit characters;
  case mapping and white space follow JavaScript on ASCII. Cells holding objects (a
  \<^verbatim>\<open>Date\<close>) are not modelled.
\<close>

datatype jsval = Undefined | Null | Bool bool | Num real | NaN | Str string

datatype error = TypeError | RangeError

text \<open>
  Built-ins whose full definition lies in the language standard rather than in the
  repository are parameters of the model, collected in one record:
  \<^item> \<open>numberToString\<close>: \<^verbatim>\<open>String(n)\<close> for a number;
  \<^item> \<open>parseFloatStr\<close>: \<^verbatim>\<open>parseFloat(s)\<close> for a string, \<open>None\<close> for NaN;
  \<^item> \<open>stringToNumber\<close>: the conversion \<^verbatim>\<open>Number(s)\<close> that arithmetic
    and comparison apply to a string operand;
  \<^item> \<open>parseIntStr\<close>: \<^verbatim>\<open>parseInt(s)\<close>;
  \<^item> \<open>isoMonth\<close>: \<^verbatim>\<open>new Date(v).toISOString().slice(0, 7)\<close>, \<open>None\<close> when
    the date is invalid and \<^verbatim>\<open>toISOString\<close> raises RangeError.
  Every theorem below holds for all such parameters.
\<close>

record runtime =
  numberToString :: "real \<Rightarrow> string"
  parseFloatStr :: "string \<Rightarrow> real option"
  stringToNumber :: "string \<Rightarrow> real option"
  parseIntStr :: "string \<Rightarrow> real option"
  isoMonth :: "jsval \<Rightarrow> string option"

definition truthy :: "jsval \<Rightarrow> bool" where
  "truthy v = (case v of Undefined \<Rightarrow> False | Null \<Rightarrow> False | Bool b \<Rightarrow> b
     | Num n \<Rightarrow> n \<noteq> 0 | NaN \<Rightarrow> False | Str s \<Rightarrow> s \<noteq> [])"

text \<open>\<^verbatim>\<open>a || b\<close> and \<^verbatim>\<open>a && b\<close> on values.\<close>

definition js_or :: "jsval \<Rightarrow> jsval \<Rightarrow> jsval" where
  "js_or a b = (if truthy a then a else b)"

definition js_and :: "jsval \<Rightarrow> jsval \<Rightarrow> jsval" where
  "js_and a b = (if truthy a then b else a)"

definition isString :: "jsval \<Rightarrow> bool" where
  "isString v = (case v of Str s \<Rightarrow> True | _ \<Rightarrow> False)"

text \<open>\<^verbatim>\<open>String(v)\<close>, also the property key a value turns into.\<close>

definition toString :: "runtime \<Rightarrow> jsval \<Rightarrow> string" where
  "toString R v = (case v of Undefined \<Rightarrow> ''undefined'' | Null \<Rightarrow> ''null''
     | Bool b \<Rightarrow> (if b then ''true'' else ''false'')
     | Num n \<Rightarrow> numberToString R n | NaN \<Rightarrow> ''NaN'' | Str s \<Rightarrow> s)"

text \<open>\<^verbatim>\<open>a === b\<close> on these values: NaN equals nothing, itself included.\<close>

definition strictEq :: "jsval \<Rightarrow> jsval \<Rightarrow> bool" where
  "strictEq a b = (a = b \<and> a \<noteq> NaN)"

text \<open>The conversion to a number that arithmetic and comparison apply to an operand.\<close>

definition toNumber :: "runtime \<Rightarrow> jsval \<Rightarrow> real option" where
  "toNumber R v = (case v of Undefined \<Rightarrow> None | Null \<Rightarrow> Some 0
     | Bool b \<Rightarrow> Some (if b then 1 else 0) | Num n \<Rightarrow> Some n | NaN \<Rightarrow> None
     | Str s \<Rightarrow> stringToNumber R s)"

definition ofNumber :: "real option \<Rightarrow> jsval" where
  "ofNumber x = (case x of None \<Rightarrow> NaN | Some n \<Rightarrow> Num n)"

text \<open>
  \<^verbatim>\<open>a + b\<close>: concatenation as soon as one operand is a string, addition of the
  operands' numbers otherwise.
\<close>

definition js_plus :: "runtime \<Rightarrow> jsval \<Rightarrow> jsval \<Rightarrow> jsval" where
  "js_plus R a b =
     (if isString a \<or> isString b then Str (toString R a @ toString R b)
      else (case (toNumber R a, toNumber R b) of
              (Some x, Some y) \<Rightarrow> Num (x + y)
            | _ \<Rightarrow> NaN))"

text \<open>\<^verbatim>\<open>a > 0\<close>: false when the operand has no number.\<close>

definition greaterThan0 :: "runtime \<Rightarrow> jsval \<Rightarrow> bool" where
  "greaterThan0 R a = (case toNumber R a of None \<Rightarrow> False | Some x \<Rightarrow> x > 0)"

text \<open>
  \<^verbatim>\<open>parseFloat(v)\<close> converts its argument to a string first; for a number the
  round trip gives the number back, and \<^verbatim>\<open>"true"\<close>, \<^verbatim>\<open>"null"\<close>,
  \<^verbatim>\<open>"undefined"\<close> do not parse.
\<close>

definition parseFloat :: "runtime \<Rightarrow> jsval \<Rightarrow> real option" where
  "parseFloat R v = (case v of Num n \<Rightarrow> Some n | Str s \<Rightarrow> parseFloatStr R s | _ \<Rightarrow> None)"

text \<open>\<^verbatim>\<open>parseFloat(v) || 0\<close>: NaN and 0 are falsy.\<close>

definition parseFloatOr0 :: "runtime \<Rightarrow> jsval \<Rightarrow> real" where
  "parseFloatOr0 R v = (case parseFloat R v of None \<Rightarrow> 0 | Some n \<Rightarrow> n)"

subsection \<open>Strings\<close>

definition upperLetters :: string where
  "upperLetters = ''ABCDEFGHIJKLMNOPQRSTUVWXYZ''"

definition lowerLetters :: string where
  "lowerLetters = ''abcdefghijklmnopqrstuvwxyz''"

definition lowerChar :: "char \<Rightarrow> char" where
  "lowerChar c = (case map_of (zip upperLetters lowerLetters) c of None \<Rightarrow> c | Some l \<Rightarrow> l)"

definition toLowerCase :: "string \<Rightarrow> string" where
  "toLowerCase s = map lowerChar s"

definition isSpace :: "char \<Rightarrow> bool" where
  "isSpace c = (c \<in> set [CHR '' '', CHR 0x09, CHR 0x0A, CHR 0x0B, CHR 0x0C, CHR 0x0D])"

definition trim :: "string \<Rightarrow> string" where
  "trim s = rev (dropWhile isSpace (rev (dropWhile isSpace s)))"

text \<open>\<^verbatim>\<open>s.includes(t)\<close>: \<open>t\<close> occurs in \<open>s\<close> as a contiguous run.\<close>

definition strIncludes :: "string \<Rightarrow> string \<Rightarrow> bool" where
  "strIncludes s t = sublist t s"

text \<open>\<^verbatim>\<open>s.split(sep)\<close> for a one-character separator: never the empty list.\<close>

fun split :: "char \<Rightarrow> string \<Rightarrow> string list" where
  "split sep [] = [[]]"
| "split sep (c # cs) =
     (if c = sep then [] # split sep cs
      else (case split sep cs of [] \<Rightarrow> [[c]] | w # ws \<Rightarrow> (c # w) # ws))"

fun join :: "string \<Rightarrow> string list \<Rightarrow> string" where
  "join sep [] = []"
| "join sep [x] = x"
| "join sep (x # y # zs) = x @ sep @ join sep (y # zs)"

text \<open>\<^verbatim>\<open>xs.slice(-2)\<close>: the last two elements, or all of a shorter array.\<close>

definition sliceLast2 :: "'a list \<Rightarrow> 'a list" where
  "sliceLast2 xs = drop (length xs - 2) xs"

text \<open>\<^verbatim>\<open>s.replace(/^www\./, '')\<close>.\<close>

definition stripWww :: "string \<Rightarrow> string" where
  "stripWww s = (if prefix ''www.'' s then drop 4 s else s)"

text \<open>
  \<^verbatim>\<open>raw.split(';').map(x => x.trim()).filter(x => x !== '')\<close>, guarded by
  \<^verbatim>\<open>raw && typeof raw === 'string'\<close>: the brand tags and the associated
  company names of a deal.
\<close>

definition splitTags :: "jsval \<Rightarrow> string list" where
  "splitTags raw = (case raw of
       Str s \<Rightarrow> (if s \<noteq> [] then filter (\<lambda>b. b \<noteq> []) (map trim (split CHR '';'' s)) else [])
     | _ \<Rightarrow> [])"

section \<open>Input rows\<close>

record deal =
  dRecordID :: jsval
  dDealName :: jsval
  dBudget :: jsval
  dAmount :: jsval
  dCampaignBrand :: jsval
  dDealStage :: jsval
  dPipeline :: jsval
  dCloseDate :: jsval
  dCreateDate :: jsval
  dIsClosedWon :: jsval
  dPrimaryCompanyId :: jsval
  dAssociatedCompany :: jsval

record company =
  cRecordID :: jsval
  cCompanyName :: jsval
  cCompanyDomainName :: jsval
  cTotalRevenue :: jsval

section \<open>Strategy 1: direct-ID mapping\<close>

text \<open>\<^verbatim>\<open>directIdMapping\<close>, lines 88 to 127.\<close>

record mapping =
  dealId :: jsval
  dealName :: jsval
  companyId :: jsval
  companyName :: jsval
  relationship :: string
  confidence :: nat
  amount :: real
  campaignBrand :: jsval
  dealStage :: jsval
  pipeline :: jsval
  closeDate :: jsval
  createDate :: jsval
  isClosedWon :: jsval

text \<open>
  \<^verbatim>\<open>id !== undefined && id !== null && String(id).trim() !== ''\<close>
\<close>

definition nonBlankRef :: "runtime \<Rightarrow> jsval \<Rightarrow> bool" where
  "nonBlankRef R v = (v \<noteq> Undefined \<and> v \<noteq> Null \<and> trim (toString R v) \<noteq> [])"

text \<open>
  \<^verbatim>\<open>companies.find(c => String(c['Record ID']) === String(primaryCompanyId))\<close>
\<close>

definition findCompany :: "runtime \<Rightarrow> company list \<Rightarrow> jsval \<Rightarrow> company option" where
  "findCompany R companies ref =
     find (\<lambda>c. toString R (cRecordID c) = toString R ref) companies"

definition stageIsWon :: "runtime \<Rightarrow> deal \<Rightarrow> jsval" where
  "stageIsWon R d =
     (if dIsClosedWon d = Bool True then Bool True
      else js_and (dDealStage d)
             (Bool (strIncludes (toLowerCase (toString R (dDealStage d))) ''won'')))"

definition makeMapping :: "runtime \<Rightarrow> deal \<Rightarrow> company \<Rightarrow> mapping" where
  "makeMapping R d c =
     \<lparr> dealId = dRecordID d,
       dealName = js_or (dDealName d) (Str ''Unnamed Deal''),
       companyId = cRecordID c,
       companyName = js_or (cCompanyName c) (Str ''Unnamed Company''),
       relationship = ''primary'',
       confidence = 100,
       amount = parseFloatOr0 R (dBudget d),
       campaignBrand = js_or (dCampaignBrand d) (Str ''''),
       dealStage = js_or (dDealStage d) (Str ''Unknown''),
       pipeline = js_or (dPipeline d) (Str ''Unknown''),
       closeDate = dCloseDate d,
       createDate = dCreateDate d,
       isClosedWon = stageIsWon R d \<rparr>"

text \<open>
  The body of \<^verbatim>\<open>deals.forEach\<close>: the state is the array \<^verbatim>\<open>mappings\<close>
  and the counter \<^verbatim>\<open>unmappedCount\<close>.
\<close>

definition directIdStep ::
  "runtime \<Rightarrow> company list \<Rightarrow> mapping list \<times> nat \<Rightarrow> deal \<Rightarrow> mapping list \<times> nat" where
  "directIdStep R companies st d =
     (let primaryCompanyId = dPrimaryCompanyId d in
      if nonBlankRef R primaryCompanyId then
        (case findCompany R companies primaryCompanyId of
           Some c \<Rightarrow> (fst st @ [makeMapping R d c], snd st)
         | None \<Rightarrow> (fst st, snd st + 1))
      else (fst st, snd st + 1))"

definition directIdMapping :: "runtime \<Rightarrow> deal list \<Rightarrow> company list \<Rightarrow> mapping list" where
  "directIdMapping R deals companies =
     (if deals = [] \<or> companies = [] then []
      else fst (foldl (directIdStep R companies) ([], 0) deals))"

text \<open>What one deal adds to \<^verbatim>\<open>mappings\<close>, and to \<^verbatim>\<open>unmappedCount\<close>.\<close>

definition mappingsOfDeal :: "runtime \<Rightarrow> company list \<Rightarrow> deal \<Rightarrow> mapping list" where
  "mappingsOfDeal R companies d = fst (directIdStep R companies ([], 0) d)"

definition unmappedOfDeal :: "runtime \<Rightarrow> company list \<Rightarrow> deal \<Rightarrow> nat" where
  "unmappedOfDeal R companies d = snd (directIdStep R companies ([], 0) d)"

definition matchesSome :: "runtime \<Rightarrow> company list \<Rightarrow> jsval \<Rightarrow> bool" where
  "matchesSome R companies ref =
     list_ex (\<lambda>c. toString R (cRecordID c) = toString R ref) companies"

text \<open>A deal the resolver leaves unmapped: blank reference, or no company matches it.\<close>

definition unmappedDeal :: "runtime \<Rightarrow> company list \<Rightarrow> deal \<Rightarrow> bool" where
  "unmappedDeal R companies d =
     (\<not> (nonBlankRef R (dPrimaryCompanyId d) \<and> matchesSome R companies (dPrimaryCompanyId d)))"

section \<open>Strategy 2: domain clustering\<close>

text \<open>\<^verbatim>\<open>domainMapping\<close>, lines 130 to 182.\<close>

text \<open>
  The clustering key of a domain that passed the guard
  \<^verbatim>\<open>domain && typeof domain === 'string' && domain.trim() !== ''\<close>:
  \<^verbatim>\<open>domain.toLowerCase().replace(/^www\./, '').trim()\<close>, then
  \<^verbatim>\<open>cleanDomain.split('.').slice(-2).join('.')\<close>.
\<close>

definition cleanDomain :: "string \<Rightarrow> string" where
  "cleanDomain domain = trim (stripWww (toLowerCase domain))"

definition rootDomain :: "string \<Rightarrow> string" where
  "rootDomain domain = join ''.'' (sliceLast2 (split CHR ''.'' (cleanDomain domain)))"

text \<open>The key under which a company is grouped; \<open>None\<close> when the guard skips it.\<close>

definition domainKey :: "company \<Rightarrow> string option" where
  "domainKey c = (case cCompanyDomainName c of
       Str s \<Rightarrow> (if s \<noteq> [] \<and> trim s \<noteq> [] then Some (rootDomain s) else None)
     | _ \<Rightarrow> None)"

text \<open>
  \<^verbatim>\<open>domainGroups\<close> is an object used as a dictionary from root domain to the
  array of its companies. It is modelled as an association list in insertion order
  (\<^verbatim>\<open>Object.entries\<close> lists keys that look like array indices first; no theorem
  below depends on the order of the groups, and keys that name a member of
  \<^verbatim>\<open>Object.prototype\<close> are outside the model).
\<close>

type_synonym domainGroups = "(string \<times> company list) list"

definition pushGroup :: "string \<Rightarrow> company \<Rightarrow> domainGroups \<Rightarrow> domainGroups" where
  "pushGroup k c groups = (case map_of groups k of
       None \<Rightarrow> AList.update k [c] groups
     | Some cs \<Rightarrow> AList.update k (cs @ [c]) groups)"

definition groupStep :: "domainGroups \<Rightarrow> company \<Rightarrow> domainGroups" where
  "groupStep groups c = (case domainKey c of None \<Rightarrow> groups | Some k \<Rightarrow> pushGroup k c groups)"

definition buildDomainGroups :: "company list \<Rightarrow> domainGroups" where
  "buildDomainGroups companies = foldl groupStep [] companies"

text \<open>\<^verbatim>\<open>{ ...company, dealCount, totalRevenue }\<close>, the two added fields prefixed \<open>cw\<close>.\<close>

record companyWithMetrics =
  base :: company
  cwDealCount :: nat
  cwTotalRevenue :: real

definition withMetrics :: "runtime \<Rightarrow> mapping list \<Rightarrow> company \<Rightarrow> companyWithMetrics" where
  "withMetrics R ms c =
     \<lparr> base = c,
       cwDealCount = length (filter (\<lambda>m. strictEq (companyId m) (cRecordID c)) ms),
       cwTotalRevenue = parseFloatOr0 R (cTotalRevenue c) \<rparr>"

text \<open>The callback of \<^verbatim>\<open>companiesWithMetrics.reduce\<close>.\<close>

definition pickParent :: "companyWithMetrics \<Rightarrow> companyWithMetrics \<Rightarrow> companyWithMetrics" where
  "pickParent prev current =
     (if cwDealCount current > cwDealCount prev then current
      else if cwDealCount current = cwDealCount prev \<and> cwTotalRevenue current > cwTotalRevenue prev
      then current
      else prev)"

text \<open>
  \<^verbatim>\<open>reduce\<close> without an initial value starts from the first element; on an empty
  array it raises TypeError (the caller only reduces groups of two or more).
\<close>

definition selectParent :: "companyWithMetrics list \<Rightarrow> error + companyWithMetrics" where
  "selectParent ms = (case ms of [] \<Rightarrow> Inl TypeError | m # rest \<Rightarrow> Inr (foldl pickParent m rest))"

record domainRelationship =
  parentId :: jsval
  parentName :: jsval
  childId :: jsval
  childName :: jsval
  relConfidence :: nat
  basis :: string
  domain :: string
  parentDealCount :: nat
  parentRevenue :: real

definition makeRelationship :: "string \<Rightarrow> companyWithMetrics \<Rightarrow> company \<Rightarrow> domainRelationship" where
  "makeRelationship k parent c =
     \<lparr> parentId = cRecordID (base parent),
       parentName = js_or (cCompanyName (base parent)) (Str ''Unnamed Parent''),
       childId = cRecordID c,
       childName = js_or (cCompanyName c) (Str ''Unnamed Child''),
       relConfidence = 75,
       basis = ''domain'',
       domain = k,
       parentDealCount = cwDealCount parent,
       parentRevenue = cwTotalRevenue parent \<rparr>"

text \<open>The body of \<^verbatim>\<open>relatedCompanies.forEach\<close>.\<close>

definition childStep ::
  "string \<Rightarrow> companyWithMetrics \<Rightarrow> domainRelationship list \<Rightarrow> company \<Rightarrow> domainRelationship list" where
  "childStep k parent rels c =
     (if \<not> strictEq (cRecordID c) (cRecordID (base parent))
      then rels @ [makeRelationship k parent c]
      else rels)"

text \<open>The body of \<^verbatim>\<open>Object.entries(domainGroups).forEach\<close>.\<close>

definition relationshipStep ::
  "runtime \<Rightarrow> mapping list \<Rightarrow> domainRelationship list \<Rightarrow> string \<times> company list
     \<Rightarrow> domainRelationship list" where
  "relationshipStep R ms rels entry =
     (let k = fst entry; relatedCompanies = snd entry in
      if length relatedCompanies > 1 then
        (case selectParent (map (withMetrics R ms) relatedCompanies) of
           Inl e \<Rightarrow> rels
         | Inr parent \<Rightarrow> foldl (childStep k parent) rels relatedCompanies)
      else rels)"

definition domainMapping ::
  "runtime \<Rightarrow> company list \<Rightarrow> mapping list \<Rightarrow> domainRelationship list" where
  "domainMapping R companies ms =
     foldl (relationshipStep R ms) [] (buildDomainGroups companies)"

text \<open>The relationships one group adds, and the parent chosen for it.\<close>

definition relationshipsOfGroup ::
  "runtime \<Rightarrow> mapping list \<Rightarrow> string \<times> company list \<Rightarrow> domainRelationship list" where
  "relationshipsOfGroup R ms entry = relationshipStep R ms [] entry"

definition groupParent :: "runtime \<Rightarrow> mapping list \<Rightarrow> company list \<Rightarrow> error + companyWithMetrics" where
  "groupParent R ms relatedCompanies = selectParent (map (withMetrics R ms) relatedCompanies)"

text \<open>The members of a group that differ from the parent by \<^verbatim>\<open>Record ID\<close>.\<close>

definition otherMembers :: "companyWithMetrics \<Rightarrow> company list \<Rightarrow> company list" where
  "otherMembers parent relatedCompanies =
     filter (\<lambda>c. \<not> strictEq (cRecordID c) (cRecordID (base parent))) relatedCompanies"


text \<open>
  The order the reducer's two tests induce: more resolved deals first, then more declared
  revenue.
\<close>

definition ranksBelow :: "companyWithMetrics \<Rightarrow> companyWithMetrics \<Rightarrow> bool" where
  "ranksBelow a b =
     (cwDealCount a < cwDealCount b \<or> (cwDealCount a = cwDealCount b \<and> cwTotalRevenue a < cwTotalRevenue b))"


section \<open>Strategy 3: brand attribution\<close>

text \<open>\<^verbatim>\<open>brandMapping\<close>, lines 185 to 277.\<close>

text \<open>Running a loop body that may raise: the first exception ends the loop.\<close>

fun foldlE :: "('s \<Rightarrow> 'a \<Rightarrow> error + 's) \<Rightarrow> 's \<Rightarrow> 'a list \<Rightarrow> error + 's" where
  "foldlE f s [] = Inr s"
| "foldlE f s (x # xs) = (case f s x of Inl e \<Rightarrow> Inl e | Inr s' \<Rightarrow> foldlE f s' xs)"

text \<open>
  \<^verbatim>\<open>obj[k] = (obj[k] || 0) + n\<close> on a dictionary of numbers: an absent entry and
  a zero entry both count as 0. The dictionaries of this and the next section are
  association lists in insertion order, as \<^verbatim>\<open>domainGroups\<close> is.
\<close>

definition lookup0 :: "(string \<times> 'n::zero) list \<Rightarrow> string \<Rightarrow> 'n" where
  "lookup0 obj k = (case map_of obj k of None \<Rightarrow> 0 | Some v \<Rightarrow> v)"

definition addTo :: "string \<Rightarrow> 'n::{zero,plus} \<Rightarrow> (string \<times> 'n) list \<Rightarrow> (string \<times> 'n) list" where
  "addTo k n obj = AList.update k (lookup0 obj k + n) obj"

text \<open>
  \<^verbatim>\<open>if (!obj[b]) obj[b] = {}; obj[b][k] = (obj[b][k] || 0) + n\<close> on a dictionary
  of dictionaries.
\<close>

definition addToNested ::
  "string \<Rightarrow> string \<Rightarrow> 'n::{zero,plus} \<Rightarrow> (string \<times> (string \<times> 'n) list) list
     \<Rightarrow> (string \<times> (string \<times> 'n) list) list" where
  "addToNested b k n obj =
     (let inner = (case map_of obj b of None \<Rightarrow> [] | Some i \<Rightarrow> i)
      in AList.update b (addTo k n inner) obj)"

text \<open>
  \<^verbatim>\<open>if (!obj[b]) obj[b] = new Set(); obj[b].add(v)\<close>: a set keeps the first
  occurrence of a value.
\<close>

definition addToSet :: "string \<Rightarrow> jsval \<Rightarrow> (string \<times> jsval list) list \<Rightarrow> (string \<times> jsval list) list" where
  "addToSet b v obj =
     (let members = (case map_of obj b of None \<Rightarrow> [] | Some m \<Rightarrow> m)
      in AList.update b (if v \<in> set members then members else members @ [v]) obj)"

record brandState =
  brandRevenue :: "(string \<times> real) list"
  brandCompanies :: "(string \<times> jsval list) list"
  brandDealCounts :: "(string \<times> nat) list"
  brandPipelines :: "(string \<times> (string \<times> nat) list) list"
  brandStages :: "(string \<times> (string \<times> nat) list) list"
  brandTimeSeries :: "(string \<times> (string \<times> real) list) list"

definition emptyBrandState :: brandState where
  "emptyBrandState = \<lparr> brandRevenue = [], brandCompanies = [], brandDealCounts = [],
     brandPipelines = [], brandStages = [], brandTimeSeries = [] \<rparr>"

text \<open>The revenue a deal carries into the brand totals: \<^verbatim>\<open>parseFloat(deal['Budget']) || 0\<close>.\<close>

definition dealRevenue :: "runtime \<Rightarrow> deal \<Rightarrow> real" where
  "dealRevenue R d = parseFloatOr0 R (dBudget d)"

text \<open>
  The time-series step of the loop body:
  \<^verbatim>\<open>if (closeDate) { const monthYear = new Date(closeDate).toISOString().slice(0, 7); ... }\<close>
\<close>

definition timeSeriesStep ::
  "runtime \<Rightarrow> deal \<Rightarrow> string \<Rightarrow> (string \<times> (string \<times> real) list) list
     \<Rightarrow> error + (string \<times> (string \<times> real) list) list" where
  "timeSeriesStep R d brand ts =
     (if truthy (dCloseDate d) then
        (case isoMonth R (dCloseDate d) of
           None \<Rightarrow> Inl RangeError
         | Some monthYear \<Rightarrow> Inr (addToNested brand monthYear (dealRevenue R d) ts))
      else Inr ts)"

text \<open>
  The body of \<^verbatim>\<open>brands.forEach\<close> for one deal. An exception in the time-series
  step discards the whole state of the pass, so the updates the source makes before it
  are written after it here.
\<close>

definition brandStep :: "runtime \<Rightarrow> deal \<Rightarrow> brandState \<Rightarrow> string \<Rightarrow> error + brandState" where
  "brandStep R d st brand =
     (if brand \<noteq> [] then
        (let revenue = dealRevenue R d;
             pipelineKey = toString R (js_or (dPipeline d) (Str ''Unknown''));
             stageKey = toString R (js_or (dDealStage d) (Str ''Unknown''));
             primaryCompanyId = dPrimaryCompanyId d
         in case timeSeriesStep R d brand (brandTimeSeries st) of
              Inl e \<Rightarrow> Inl e
            | Inr ts \<Rightarrow>
                Inr \<lparr> brandRevenue = addTo brand revenue (brandRevenue st),
                      brandCompanies =
                        (if nonBlankRef R primaryCompanyId
                         then addToSet brand primaryCompanyId (brandCompanies st)
                         else brandCompanies st),
                      brandDealCounts = addTo brand 1 (brandDealCounts st),
                      brandPipelines = addToNested brand pipelineKey 1 (brandPipelines st),
                      brandStages = addToNested brand stageKey 1 (brandStages st),
                      brandTimeSeries = ts \<rparr>)
      else Inr st)"

text \<open>
  A deal on which the aggregation does not raise: it has no brand tag, or its close date
  is falsy, or the date is valid.
\<close>

definition brandSafe :: "runtime \<Rightarrow> deal \<Rightarrow> bool" where
  "brandSafe R d =
     (splitTags (dCampaignBrand d) = [] \<or> \<not> truthy (dCloseDate d) \<or> isoMonth R (dCloseDate d) \<noteq> None)"

text \<open>The body of \<^verbatim>\<open>deals.forEach\<close>.\<close>

definition brandDealStep :: "runtime \<Rightarrow> brandState \<Rightarrow> deal \<Rightarrow> error + brandState" where
  "brandDealStep R st d = foldlE (brandStep R d) st (splitTags (dCampaignBrand d))"

definition brandLoop :: "runtime \<Rightarrow> deal list \<Rightarrow> error + brandState" where
  "brandLoop R deals = foldlE (brandDealStep R) emptyBrandState deals"

record brandMetric =
  brand :: string
  revenue :: real
  bmDealCount :: nat
  avgDealSize :: real
  companyCount :: nat
  bmWinRate :: real
  pipelines :: "(string \<times> nat) list"
  stages :: "(string \<times> nat) list"

definition makeBrandMetric :: "brandState \<Rightarrow> string \<Rightarrow> brandMetric" where
  "makeBrandMetric st b =
     (let stgs = (case map_of (brandStages st) b of None \<Rightarrow> [] | Some x \<Rightarrow> x);
          wonDeals = sum_list (map snd (filter (\<lambda>e. strIncludes (toLowerCase (fst e)) ''won'') stgs))
      in \<lparr> brand = b,
           revenue = lookup0 (brandRevenue st) b,
           bmDealCount = lookup0 (brandDealCounts st) b,
           avgDealSize = lookup0 (brandRevenue st) b / real (lookup0 (brandDealCounts st) b),
           companyCount = (case map_of (brandCompanies st) b of None \<Rightarrow> 0 | Some m \<Rightarrow> length m),
           bmWinRate = real wonDeals / real (lookup0 (brandDealCounts st) b) * 100,
           pipelines = (case map_of (brandPipelines st) b of None \<Rightarrow> [] | Some x \<Rightarrow> x),
           stages = stgs \<rparr>)"

record brandResult =
  accumulated :: brandState
  brandMetrics :: "brandMetric list"
  brTotalBrands :: nat
  totalBrandRevenue :: real

text \<open>
  \<^verbatim>\<open>brandMapping\<close>: the loop, then the metrics sorted by descending revenue (the
  sort is stable) and the two totals.
\<close>

definition brandMapping :: "runtime \<Rightarrow> deal list \<Rightarrow> error + brandResult" where
  "brandMapping R deals =
     (case brandLoop R deals of
        Inl e \<Rightarrow> Inl e
      | Inr st \<Rightarrow>
          Inr \<lparr> accumulated = st,
                brandMetrics =
                  sort_key (\<lambda>m. - revenue m) (map (makeBrandMetric st) (map fst (brandRevenue st))),
                brTotalBrands = length (brandRevenue st),
                totalBrandRevenue = foldl (\<lambda>sum rev. sum + rev) 0 (map snd (brandRevenue st)) \<rparr>)"

section \<open>Strategy 4: revenue validation by associated company name\<close>

text \<open>\<^verbatim>\<open>revenueValidation\<close>, lines 280 to 348.\<close>

text \<open>
  \<^verbatim>\<open>v.toLowerCase().includes(t)\<close> on a value: only a string has the method
  \<^verbatim>\<open>toLowerCase\<close>; on anything else the call raises TypeError.
\<close>

definition lowerIncludes :: "jsval \<Rightarrow> string \<Rightarrow> error + bool" where
  "lowerIncludes v t = (case v of Str s \<Rightarrow> Inr (strIncludes (toLowerCase s) t) | _ \<Rightarrow> Inl TypeError)"

text \<open>\<^verbatim>\<open>v && v.toLowerCase().includes(t)\<close>, read as a condition.\<close>

definition guardedLowerIncludes :: "jsval \<Rightarrow> string \<Rightarrow> error + bool" where
  "guardedLowerIncludes v t = (if truthy v then lowerIncludes v t else Inr False)"

record dealSummary =
  sName :: jsval
  sStage :: jsval
  sMediaBudget :: real
  sPoAmount :: real
  sCloseDate :: jsval

record companyAnalysis =
  aCompanyName :: string
  aTotalMediaBudget :: real
  aTotalPOAmount :: real
  aDealCount :: nat
  aWonDeals :: nat
  aOpenDeals :: nat
  aLostDeals :: nat
  aDeals :: "dealSummary list"

definition newAnalysis :: "string \<Rightarrow> companyAnalysis" where
  "newAnalysis n = \<lparr> aCompanyName = n, aTotalMediaBudget = 0, aTotalPOAmount = 0,
     aDealCount = 0, aWonDeals = 0, aOpenDeals = 0, aLostDeals = 0, aDeals = [] \<rparr>"

text \<open>
  \<^verbatim>\<open>deal['Is Closed Won'] === true || (dealStage && dealStage.toLowerCase().includes('won'))\<close>
  with \<^verbatim>\<open>dealStage = deal['Deal Stage'] || 'Unknown'\<close>.
\<close>

definition dealStageOf :: "deal \<Rightarrow> jsval" where
  "dealStageOf d = js_or (dDealStage d) (Str ''Unknown'')"

definition dealIsClosedWon :: "deal \<Rightarrow> error + bool" where
  "dealIsClosedWon d =
     (if dIsClosedWon d = Bool True then Inr True
      else guardedLowerIncludes (dealStageOf d) ''won'')"

text \<open>The body of \<^verbatim>\<open>associatedCompanies.forEach\<close> for one deal.\<close>

definition analysisStep ::
  "runtime \<Rightarrow> deal \<Rightarrow> bool \<Rightarrow> (string \<times> companyAnalysis) list \<Rightarrow> string
     \<Rightarrow> error + (string \<times> companyAnalysis) list" where
  "analysisStep R d won tbl cname =
     (let a0 = (case map_of tbl cname of None \<Rightarrow> newAnalysis cname | Some a \<Rightarrow> a);
          a1 = a0 \<lparr> aTotalMediaBudget := aTotalMediaBudget a0 + parseFloatOr0 R (dBudget d),
                    aTotalPOAmount := aTotalPOAmount a0 + parseFloatOr0 R (dAmount d),
                    aDealCount := aDealCount a0 + 1,
                    aDeals := aDeals a0 @
                      [\<lparr> sName = js_or (dDealName d) (Str ''Unnamed Deal''),
                         sStage = dealStageOf d,
                         sMediaBudget = parseFloatOr0 R (dBudget d),
                         sPoAmount = parseFloatOr0 R (dAmount d),
                         sCloseDate = dCloseDate d \<rparr>] \<rparr>
      in if won then Inr (AList.update cname (a1 \<lparr> aWonDeals := aWonDeals a1 + 1 \<rparr>) tbl)
         else (case guardedLowerIncludes (dealStageOf d) ''lost'' of
                 Inl e \<Rightarrow> Inl e
               | Inr lost \<Rightarrow>
                   if lost then Inr (AList.update cname (a1 \<lparr> aLostDeals := aLostDeals a1 + 1 \<rparr>) tbl)
                   else Inr (AList.update cname (a1 \<lparr> aOpenDeals := aOpenDeals a1 + 1 \<rparr>) tbl)))"

text \<open>
  The body of \<^verbatim>\<open>deals.forEach\<close>: \<^verbatim>\<open>isClosedWon\<close> is computed for every
  deal, before its list of associated companies is looked at.
\<close>

definition analysisDealStep ::
  "runtime \<Rightarrow> (string \<times> companyAnalysis) list \<Rightarrow> deal \<Rightarrow> error + (string \<times> companyAnalysis) list" where
  "analysisDealStep R tbl d =
     (case dealIsClosedWon d of
        Inl e \<Rightarrow> Inl e
      | Inr won \<Rightarrow> foldlE (analysisStep R d won) tbl (splitTags (dAssociatedCompany d)))"

record revenueRow =
  rCompanyName :: string
  totalMediaBudget :: real
  totalPOAmount :: real
  dealCount :: nat
  wonDeals :: nat
  openDeals :: nat
  lostDeals :: nat
  winRate :: real
  avgPOAmount :: real
  avgMediaBudget :: real
  rDeals :: "dealSummary list"

definition makeRevenueRow :: "companyAnalysis \<Rightarrow> revenueRow" where
  "makeRevenueRow a =
     \<lparr> rCompanyName = aCompanyName a,
       totalMediaBudget = aTotalMediaBudget a,
       totalPOAmount = aTotalPOAmount a,
       dealCount = aDealCount a,
       wonDeals = aWonDeals a,
       openDeals = aOpenDeals a,
       lostDeals = aLostDeals a,
       winRate = (if aDealCount a > 0 then real (aWonDeals a) / real (aDealCount a) * 100 else 0),
       avgPOAmount = (if aDealCount a > 0 then aTotalPOAmount a / real (aDealCount a) else 0),
       avgMediaBudget = (if aDealCount a > 0 then aTotalMediaBudget a / real (aDealCount a) else 0),
       rDeals = aDeals a \<rparr>"

text \<open>
  A deal on which the validation does not raise: its won flag is \<^verbatim>\<open>true\<close>, or
  its stage is a string or falsy.
\<close>

definition stageSafe :: "deal \<Rightarrow> bool" where
  "stageSafe d = (dIsClosedWon d = Bool True \<or> isString (dealStageOf d))"

text \<open>The three buckets of an analysis add up to its deal count.\<close>

definition balanced :: "companyAnalysis \<Rightarrow> bool" where
  "balanced a = (aWonDeals a + aOpenDeals a + aLostDeals a = aDealCount a)"

definition revenueValidation :: "runtime \<Rightarrow> deal list \<Rightarrow> error + revenueRow list" where
  "revenueValidation R deals =
     (case foldlE (analysisDealStep R) [] deals of
        Inl e \<Rightarrow> Inl e
      | Inr tbl \<Rightarrow>
          Inr (filter (\<lambda>item. totalMediaBudget item > 0 \<or> totalPOAmount item > 0)
                 (map (\<lambda>entry. makeRevenueRow (snd entry)) tbl)))"

section \<open>Combined relationships and the search filter\<close>

text \<open>
  \<^verbatim>\<open>combinedRelationships\<close> and \<^verbatim>\<open>filteredRelationships\<close>, lines 351 to 387.
\<close>

text \<open>
  An entry of \<^verbatim>\<open>combinedRelationships\<close> is a mapping tagged
  \<^verbatim>\<open>strategy: 'Enhanced ID', type: 'deal-company'\<close> or a domain relationship tagged
  \<^verbatim>\<open>strategy: 'Domain', type: 'parent-child'\<close>.
\<close>

datatype combinedRelationship = DealCompany mapping | ParentChild domainRelationship

definition strategy :: "combinedRelationship \<Rightarrow> string" where
  "strategy rel = (case rel of DealCompany m \<Rightarrow> ''Enhanced ID'' | ParentChild r \<Rightarrow> ''Domain'')"

definition relType :: "combinedRelationship \<Rightarrow> string" where
  "relType rel = (case rel of DealCompany m \<Rightarrow> ''deal-company'' | ParentChild r \<Rightarrow> ''parent-child'')"

definition combinedRelationships ::
  "mapping list \<Rightarrow> domainRelationship list \<Rightarrow> combinedRelationship list" where
  "combinedRelationships ms rels =
     foldl (\<lambda>combined rel. combined @ [ParentChild rel])
       (foldl (\<lambda>combined m. combined @ [DealCompany m]) [] ms) rels"

text \<open>Reading a property of an entry: \<^verbatim>\<open>undefined\<close> where the entry has none.\<close>

definition relDealName :: "combinedRelationship \<Rightarrow> jsval" where
  "relDealName rel = (case rel of DealCompany m \<Rightarrow> dealName m | ParentChild r \<Rightarrow> Undefined)"

definition relCompanyName :: "combinedRelationship \<Rightarrow> jsval" where
  "relCompanyName rel = (case rel of DealCompany m \<Rightarrow> companyName m | ParentChild r \<Rightarrow> Undefined)"

definition relParentName :: "combinedRelationship \<Rightarrow> jsval" where
  "relParentName rel = (case rel of DealCompany m \<Rightarrow> Undefined | ParentChild r \<Rightarrow> parentName r)"

definition relChildName :: "combinedRelationship \<Rightarrow> jsval" where
  "relChildName rel = (case rel of DealCompany m \<Rightarrow> Undefined | ParentChild r \<Rightarrow> childName r)"

definition relCampaignBrand :: "combinedRelationship \<Rightarrow> jsval" where
  "relCampaignBrand rel = (case rel of DealCompany m \<Rightarrow> campaignBrand m | ParentChild r \<Rightarrow> Undefined)"

text \<open>
  \<^verbatim>\<open>v?.toLowerCase().includes(lowerSearch)\<close>, read as a condition: the optional
  chain stops at \<^verbatim>\<open>undefined\<close> and \<^verbatim>\<open>null\<close> only.
\<close>

definition optLowerIncludes :: "jsval \<Rightarrow> string \<Rightarrow> error + bool" where
  "optLowerIncludes v t = (if v = Undefined \<or> v = Null then Inr False else lowerIncludes v t)"

text \<open>\<^verbatim>\<open>a || b\<close> on conditions that may raise: \<open>b\<close> is not run when \<open>a\<close> holds.\<close>

definition orElse :: "error + bool \<Rightarrow> error + bool \<Rightarrow> error + bool" where
  "orElse a b = (case a of Inl e \<Rightarrow> Inl e | Inr x \<Rightarrow> (if x then Inr True else b))"

text \<open>The callback of \<^verbatim>\<open>combinedRelationships.filter\<close>.\<close>

definition relMatches :: "string \<Rightarrow> combinedRelationship \<Rightarrow> error + bool" where
  "relMatches lowerSearch rel =
     orElse (optLowerIncludes (relDealName rel) lowerSearch)
    (orElse (optLowerIncludes (relCompanyName rel) lowerSearch)
    (orElse (optLowerIncludes (relParentName rel) lowerSearch)
    (orElse (optLowerIncludes (relChildName rel) lowerSearch)
            (optLowerIncludes (relCampaignBrand rel) lowerSearch))))"

text \<open>\<^verbatim>\<open>xs.filter(p)\<close> with a callback that may raise.\<close>

fun filterE :: "('a \<Rightarrow> error + bool) \<Rightarrow> 'a list \<Rightarrow> error + 'a list" where
  "filterE p [] = Inr []"
| "filterE p (x # xs) =
     (case p x of
        Inl e \<Rightarrow> Inl e
      | Inr keep \<Rightarrow>
          (case filterE p xs of
             Inl e \<Rightarrow> Inl e
           | Inr ys \<Rightarrow> Inr (if keep then x # ys else ys)))"

definition filteredRelationships ::
  "string \<Rightarrow> combinedRelationship list \<Rightarrow> error + combinedRelationship list" where
  "filteredRelationships searchTerm combined =
     (if searchTerm = [] then Inr combined
      else filterE (relMatches (toLowerCase searchTerm)) combined)"

text \<open>
  The values on which the optional chain of the filter does not raise: an absent
  property and a string.
\<close>

definition searchable :: "jsval \<Rightarrow> bool" where
  "searchable v = (v = Undefined \<or> v = Null \<or> isString v)"

definition relSearchable :: "combinedRelationship \<Rightarrow> bool" where
  "relSearchable rel =
     (searchable (relDealName rel) \<and> searchable (relCompanyName rel)
      \<and> searchable (relParentName rel) \<and> searchable (relChildName rel)
      \<and> searchable (relCampaignBrand rel))"

section \<open>Strategy statistics\<close>

text \<open>\<^verbatim>\<open>strategyStats\<close>, lines 390 to 441.\<close>

text \<open>\<^verbatim>\<open>stage && typeof stage === 'string' && stage.toLowerCase().includes(t)\<close>\<close>

definition stageHas :: "jsval \<Rightarrow> string \<Rightarrow> bool" where
  "stageHas stage t = (case stage of Str s \<Rightarrow> s \<noteq> [] \<and> strIncludes (toLowerCase s) t | _ \<Rightarrow> False)"

definition isWonDeal :: "deal \<Rightarrow> bool" where
  "isWonDeal d = (dIsClosedWon d = Bool True \<or> stageHas (dDealStage d) ''won'')"

definition isOpenDeal :: "deal \<Rightarrow> bool" where
  "isOpenDeal d = (case dDealStage d of
       Str s \<Rightarrow> s \<noteq> [] \<and> \<not> strIncludes (toLowerCase s) ''closed''
                \<and> \<not> strIncludes (toLowerCase s) ''lost'' \<and> \<not> strIncludes (toLowerCase s) ''won''
     | _ \<Rightarrow> False)"

definition isLostDeal :: "deal \<Rightarrow> bool" where
  "isLostDeal d = stageHas (dDealStage d) ''lost''"

text \<open>\<^verbatim>\<open>(v && typeof v === 'string') ? v : 'Unknown'\<close>\<close>

definition nameOrUnknown :: "jsval \<Rightarrow> string" where
  "nameOrUnknown v = (case v of Str s \<Rightarrow> (if s \<noteq> [] then s else ''Unknown'') | _ \<Rightarrow> ''Unknown'')"

text \<open>
  \<^verbatim>\<open>deals.reduce((sum, deal) => sum + (parseFloat(deal['Budget']) || 0), 0)\<close>
\<close>

definition totalDealValue :: "runtime \<Rightarrow> deal list \<Rightarrow> real" where
  "totalDealValue R deals = foldl (\<lambda>sum d. sum + parseFloatOr0 R (dBudget d)) 0 deals"

record strategyStatsRec =
  totalDeals :: nat
  totalCompanies :: nat
  directMappings :: nat
  domainRelationships :: nat
  revenueAccuracy :: nat
  totalRevenue :: real
  totalBrands :: nat
  closedWonDeals :: nat
  sOpenDeals :: nat
  sLostDeals :: nat
  sWinRate :: real
  averageDealSize :: real
  mappingCoverage :: real
  pipelineDistribution :: "(string \<times> nat) list"
  stageDistribution :: "(string \<times> nat) list"

definition strategyStats ::
  "runtime \<Rightarrow> deal list \<Rightarrow> company list \<Rightarrow> mapping list \<Rightarrow> domainRelationship list
     \<Rightarrow> revenueRow list \<Rightarrow> brandResult \<Rightarrow> strategyStatsRec" where
  "strategyStats R deals companies ms rels rv bm =
     (let won = length (filter isWonDeal deals) in
      \<lparr> totalDeals = length deals,
        totalCompanies = length companies,
        directMappings = length ms,
        domainRelationships = length rels,
        revenueAccuracy = length (filter (\<lambda>r. winRate r > 50) rv),
        totalRevenue = totalDealValue R deals,
        totalBrands = brTotalBrands bm,
        closedWonDeals = won,
        sOpenDeals = length (filter isOpenDeal deals),
        sLostDeals = length (filter isLostDeal deals),
        sWinRate = (if length deals > 0 then real won / real (length deals) * 100 else 0),
        averageDealSize =
          (if length deals > 0 then totalDealValue R deals / real (length deals) else 0),
        mappingCoverage =
          (if length deals > 0 then real (length ms) / real (length deals) * 100 else 0),
        pipelineDistribution =
          foldl (\<lambda>dist d. addTo (nameOrUnknown (dPipeline d)) 1 dist) [] deals,
        stageDistribution =
          foldl (\<lambda>dist d. addTo (nameOrUnknown (dDealStage d)) 1 dist) [] deals \<rparr>)"

section \<open>One reconciliation pass\<close>

text \<open>
  A render of the component runs the memoised computations in the order of the source;
  an exception raised by one of them leaves the render, and nothing after it is
  computed.
\<close>

record passResult =
  prDirect :: "mapping list"
  prDomain :: "domainRelationship list"
  prBrand :: brandResult
  prRevenue :: "revenueRow list"
  prCombined :: "combinedRelationship list"
  prFiltered :: "combinedRelationship list"
  prStats :: strategyStatsRec

definition reconciliationPass ::
  "runtime \<Rightarrow> string \<Rightarrow> deal list \<Rightarrow> company list \<Rightarrow> error + passResult" where
  "reconciliationPass R searchTerm deals companies =
     (let ms = directIdMapping R deals companies;
          rels = domainMapping R companies ms
      in case brandMapping R deals of
           Inl e \<Rightarrow> Inl e
         | Inr bm \<Rightarrow>
             (case revenueValidation R deals of
                Inl e \<Rightarrow> Inl e
              | Inr rv \<Rightarrow>
                  (let combined = combinedRelationships ms rels
                   in case filteredRelationships searchTerm combined of
                        Inl e \<Rightarrow> Inl e
                      | Inr shown \<Rightarrow>
                          Inr \<lparr> prDirect = ms, prDomain = rels, prBrand = bm, prRevenue = rv,
                                prCombined = combined, prFiltered = shown,
                                prStats = strategyStats R deals companies ms rels rv bm \<rparr>)))"

section \<open>The variant keyed by company identifier\<close>

text \<open>
  The earlier build's \<^verbatim>\<open>revenueValidation\<close> (its lines 206 to 270) joins a deal
  to a company through the primary-company reference, keeps the declared and the
  calculated revenue as the values they are (a budget that is a string is concatenated,
  not added), and scores their agreement.
\<close>

record idDealSummary =
  iName :: jsval
  iStage :: jsval
  iRevenue :: jsval

record idAnalysis =
  iCompanyName :: jsval
  iDeclaredRevenue :: jsval
  iCalculatedRevenue :: jsval
  iDealCount :: nat
  iWonDeals :: nat
  iOpenDeals :: nat
  iDeals :: "idDealSummary list"

definition newIdAnalysis :: "company \<Rightarrow> idAnalysis" where
  "newIdAnalysis c =
     \<lparr> iCompanyName = cCompanyName c,
       iDeclaredRevenue = js_or (cTotalRevenue c) (Num 0),
       iCalculatedRevenue = Num 0,
       iDealCount = 0, iWonDeals = 0, iOpenDeals = 0, iDeals = [] \<rparr>"

text \<open>The body of \<^verbatim>\<open>deals.forEach\<close> in the identifier-keyed validation.\<close>

definition idAnalysisStep ::
  "runtime \<Rightarrow> company list \<Rightarrow> (string \<times> idAnalysis) list \<Rightarrow> deal \<Rightarrow> (string \<times> idAnalysis) list" where
  "idAnalysisStep R companies tbl d =
     (let primaryCompanyId = dPrimaryCompanyId d;
          dealRev = js_or (dBudget d) (Num 0);
          stage = dDealStage d
      in if nonBlankRef R primaryCompanyId then
           (case findCompany R companies primaryCompanyId of
              None \<Rightarrow> tbl
            | Some c \<Rightarrow>
                (let k = toString R (cRecordID c);
                     a0 = (case map_of tbl k of None \<Rightarrow> newIdAnalysis c | Some a \<Rightarrow> a);
                     a1 = a0 \<lparr> iCalculatedRevenue := js_plus R (iCalculatedRevenue a0) dealRev,
                               iDealCount := iDealCount a0 + 1,
                               iDeals := iDeals a0 @
                                 [\<lparr> iName = dDealName d, iStage = stage, iRevenue = dealRev \<rparr>] \<rparr>;
                     a2 = (if stageHas stage ''won'' then a1 \<lparr> iWonDeals := iWonDeals a1 + 1 \<rparr>
                           else if (case stage of
                                      Str s \<Rightarrow> s \<noteq> [] \<and> \<not> strIncludes (toLowerCase s) ''lost''
                                                \<and> \<not> strIncludes (toLowerCase s) ''won''
                                    | _ \<Rightarrow> False)
                           then a1 \<lparr> iOpenDeals := iOpenDeals a1 + 1 \<rparr>
                           else a1)
                 in AList.update k a2 tbl))
         else tbl)"

record validationRow =
  vCompanyId :: "real option"
  vCompanyName :: jsval
  declaredRevenue :: jsval
  calculatedRevenue :: jsval
  variance :: "real option"
  accuracy :: "real option"
  vDealCount :: nat
  vWonDeals :: nat
  vOpenDeals :: nat
  vWinRate :: real

text \<open>
  \<^verbatim>\<open>Math.abs(declared - calculated)\<close>: NaN when an operand has no number.
\<close>

definition varianceOf :: "runtime \<Rightarrow> jsval \<Rightarrow> jsval \<Rightarrow> real option" where
  "varianceOf R declared calculated =
     (case (toNumber R declared, toNumber R calculated) of
        (Some x, Some y) \<Rightarrow> Some \<bar>x - y\<bar>
      | _ \<Rightarrow> None)"

text \<open>
  \<^verbatim>\<open>declared > 0 ? Math.max(0, 100 - ((variance / declared) * 100)) : 0\<close>;
  \<^verbatim>\<open>Math.max\<close> is NaN on a NaN argument.
\<close>

definition accuracyOf :: "runtime \<Rightarrow> jsval \<Rightarrow> real option \<Rightarrow> real option" where
  "accuracyOf R declared var =
     (if greaterThan0 R declared then
        (case (var, toNumber R declared) of
           (Some v, Some x) \<Rightarrow> Some (max 0 (100 - ((v / x) * 100)))
         | _ \<Rightarrow> None)
      else Some 0)"

definition makeValidationRow :: "runtime \<Rightarrow> string \<times> idAnalysis \<Rightarrow> validationRow" where
  "makeValidationRow R entry =
     (let a = snd entry;
          var = varianceOf R (iDeclaredRevenue a) (iCalculatedRevenue a)
      in \<lparr> vCompanyId = parseIntStr R (fst entry),
           vCompanyName = iCompanyName a,
           declaredRevenue = iDeclaredRevenue a,
           calculatedRevenue = iCalculatedRevenue a,
           variance = var,
           accuracy = accuracyOf R (iDeclaredRevenue a) var,
           vDealCount = iDealCount a,
           vWonDeals = iWonDeals a,
           vOpenDeals = iOpenDeals a,
           vWinRate = (if iDealCount a > 0 then real (iWonDeals a) / real (iDealCount a) * 100 else 0) \<rparr>)"

definition revenueValidationById :: "runtime \<Rightarrow> deal list \<Rightarrow> company list \<Rightarrow> validationRow list" where
  "revenueValidationById R deals companies =
     filter (\<lambda>item. greaterThan0 R (calculatedRevenue item))
       (map (makeValidationRow R) (foldl (idAnalysisStep R companies) [] deals))"

text \<open>
  The same build (its lines 114 to 123) groups companies by
  \<^verbatim>\<open>domain.toLowerCase().replace(/^www\./, '').split('.').slice(-2).join('.')\<close>
  under the guard \<^verbatim>\<open>if (domain)\<close> alone: a truthy domain that is not a string
  has no method \<^verbatim>\<open>toLowerCase\<close>.
\<close>

definition domainKeyEarlier :: "company \<Rightarrow> error + string option" where
  "domainKeyEarlier c =
     (let d = cCompanyDomainName c in
      if truthy d then
        (case d of
           Str s \<Rightarrow> Inr (Some (join ''.'' (sliceLast2 (split CHR ''.'' (stripWww (toLowerCase s))))))
         | _ \<Rightarrow> Inl TypeError)
      else Inr None)"

section \<open>The specification's formulas\<close>




text \<open>
  The accuracy score as the specification words it:
  \<^verbatim>\<open>max(0, 100 - |declared - calculated| / declared * 100)\<close> when the declared
  revenue is non-zero, else 0.
\<close>

definition specAccuracy :: "real \<Rightarrow> real \<Rightarrow> real" where
  "specAccuracy declared calculated =
     (if declared \<noteq> 0 then max 0 (100 - \<bar>declared - calculated\<bar> / declared * 100) else 0)"

text \<open>The same score with the test \<^verbatim>\<open>declared > 0\<close> in place of non-zero.\<close>

definition positiveAccuracy :: "real \<Rightarrow> real \<Rightarrow> real" where
  "positiveAccuracy declared calculated =
     (if declared > 0 then max 0 (100 - \<bar>declared - calculated\<bar> / declared * 100) else 0)"

text \<open>
  A term is a case-insensitive substring of a field when the field is a string whose
  lower-cased text contains the lower-cased term.
\<close>

definition specFieldMatches :: "string \<Rightarrow> jsval \<Rightarrow> bool" where
  "specFieldMatches term v =
     (case v of Str s \<Rightarrow> sublist (toLowerCase term) (toLowerCase s) | _ \<Rightarrow> False)"

definition specRelMatches :: "string \<Rightarrow> combinedRelationship \<Rightarrow> bool" where
  "specRelMatches term rel =
     (specFieldMatches term (relDealName rel) \<or> specFieldMatches term (relCompanyName rel)
      \<or> specFieldMatches term (relParentName rel) \<or> specFieldMatches term (relChildName rel)
      \<or> specFieldMatches term (relCampaignBrand rel))"

section \<open>Example rows\<close>

text \<open>
  The built-ins on the literals the examples use; an argument outside the tables is
  unparsable (for a number: printed as \<^verbatim>\<open>0\<close>). The close date
  \<^verbatim>\<open>"2025-05-29"\<close> falls in the month \<^verbatim>\<open>"2025-05"\<close>; the text
  \<^verbatim>\<open>"TBD"\<close> is no date.
\<close>

definition exampleRuntime :: runtime where
  "exampleRuntime =
     \<lparr> numberToString =
         (\<lambda>n. case map_of [(1, ''1''), (2, ''2''), (3, ''3''), (10, ''10''), (2024, ''2024'')] n of
                None \<Rightarrow> ''0'' | Some s \<Rightarrow> s),
       parseFloatStr = map_of [(''5000'', 5000), (''100'', 100), (''50'', 50)],
       stringToNumber = map_of [(''5000'', 5000), (''100'', 100), (''50'', 50)],
       parseIntStr = map_of [(''10'', 10), (''11'', 11), (''12'', 12)],
       isoMonth = map_of [(Str ''2025-05-29'', ''2025-05'')] \<rparr>"

definition blankDeal :: deal where
  "blankDeal =
     \<lparr> dRecordID = Undefined, dDealName = Undefined, dBudget = Undefined, dAmount = Undefined,
       dCampaignBrand = Undefined, dDealStage = Undefined, dPipeline = Undefined,
       dCloseDate = Undefined, dCreateDate = Undefined, dIsClosedWon = Undefined,
       dPrimaryCompanyId = Undefined, dAssociatedCompany = Undefined \<rparr>"

text \<open>
  The deal and the company of the specification's worked example:
  \<^verbatim>\<open>{id: 1, company: "10", budget: 5000, brand: "Acme;Zed", stage: "Closed Won"}\<close> and
  \<^verbatim>\<open>{id: "10", name: "Acme Corp", domain: "acme.com"}\<close>.
\<close>

definition exampleDeal :: deal where
  "exampleDeal = blankDeal \<lparr> dRecordID := Num 1, dBudget := Num 5000,
     dCampaignBrand := Str ''Acme;Zed'', dDealStage := Str ''Closed Won'',
     dPrimaryCompanyId := Str ''10'' \<rparr>"

definition exampleCompany :: company where
  "exampleCompany = \<lparr> cRecordID = Str ''10'', cCompanyName = Str ''Acme Corp'',
     cCompanyDomainName = Str ''acme.com'', cTotalRevenue = Undefined \<rparr>"

text \<open>Two more companies under the same root domain.\<close>

definition wwwCompany :: company where
  "wwwCompany = \<lparr> cRecordID = Str ''11'', cCompanyName = Str ''Acme Web'',
     cCompanyDomainName = Str ''www.acme.com'', cTotalRevenue = Num 100 \<rparr>"

definition shopCompany :: company where
  "shopCompany = \<lparr> cRecordID = Str ''12'', cCompanyName = Str ''Acme Shop'',
     cCompanyDomainName = Str ''shop.acme.com'', cTotalRevenue = Num 50 \<rparr>"



text \<open>A second deal of the same company, open, with a PO amount and two associated names.\<close>

definition openDeal :: deal where
  "openDeal = blankDeal \<lparr> dRecordID := Num 2, dDealName := Str ''Autumn Push'',
     dBudget := Str ''100'', dAmount := Num 50, dCampaignBrand := Str ''Zed'',
     dDealStage := Str ''Proposal'', dPrimaryCompanyId := Str ''10'',
     dAssociatedCompany := Str ''Acme Corp; Zed Ltd'' \<rparr>"

text \<open>A won deal of the same associated company.\<close>

definition wonDeal :: deal where
  "wonDeal = exampleDeal \<lparr> dDealName := Str ''Spring Launch'', dAmount := Num 100,
     dAssociatedCompany := Str ''Acme Corp'' \<rparr>"


text \<open>
  Cells that dynamic typing or free text produce: a close date that is not a date, a
  stage that is a number, a deal whose name is a year.
\<close>

definition undatedDeal :: deal where
  "undatedDeal = exampleDeal \<lparr> dCloseDate := Str ''TBD'' \<rparr>"

definition numberedStageDeal :: deal where
  "numberedStageDeal = blankDeal \<lparr> dRecordID := Num 3, dBudget := Num 100, dDealStage := Num 3 \<rparr>"

definition yearNamedDeal :: deal where
  "yearNamedDeal = exampleDeal \<lparr> dDealName := Num 2024 \<rparr>"

text \<open>A company that declares a negative total revenue, and a deal of 50 linked to it.\<close>

definition lossCompany :: company where
  "lossCompany = \<lparr> cRecordID = Str ''12'', cCompanyName = Str ''Loss Ltd'',
     cCompanyDomainName = Null, cTotalRevenue = Num (- 100) \<rparr>"

definition lossDeal :: deal where
  "lossDeal = blankDeal \<lparr> dRecordID := Num 2, dBudget := Num 50, dPrimaryCompanyId := Str ''12'' \<rparr>"

section \<open>The direct-ID resolver, deal by deal\<close>

lemma directIdStep_append:
  "directIdStep R cs st d = (fst st @ mappingsOfDeal R cs d, snd st + unmappedOfDeal R cs d)"
  by (simp add: directIdStep_def mappingsOfDeal_def unmappedOfDeal_def Let_def split: option.splits)

lemma directId_foldl:
  "foldl (directIdStep R cs) st ds =
     (fst st @ concat (map (mappingsOfDeal R cs) ds), snd st + sum_list (map (unmappedOfDeal R cs) ds))"
proof (induction ds arbitrary: st)
  case Nil
  then show ?case by simp
next
  case (Cons d ds)
  show ?case
    by (simp add: Cons.IH directIdStep_append [of R cs st d] add.assoc)
qed

lemma findCompany_None_iff:
  "findCompany R cs ref = None \<longleftrightarrow> \<not> matchesSome R cs ref"
  by (auto simp add: findCompany_def matchesSome_def find_None_iff list_ex_iff)

lemma mappingsOfDeal_cases:
  "mappingsOfDeal R cs d =
     (if nonBlankRef R (dPrimaryCompanyId d) \<and> matchesSome R cs (dPrimaryCompanyId d)
      then [makeMapping R d (the (findCompany R cs (dPrimaryCompanyId d)))] else [])"
  using findCompany_None_iff [of R cs "dPrimaryCompanyId d"]
  by (auto simp add: mappingsOfDeal_def directIdStep_def Let_def split: option.splits)

lemma unmappedOfDeal_cases:
  "unmappedOfDeal R cs d =
     (if nonBlankRef R (dPrimaryCompanyId d) \<and> matchesSome R cs (dPrimaryCompanyId d)
      then 0 else 1)"
  using findCompany_None_iff [of R cs "dPrimaryCompanyId d"]
  by (auto simp add: unmappedOfDeal_def directIdStep_def Let_def split: option.splits)

lemma mappingsOfDeal_no_companies: "mappingsOfDeal R [] d = []"
  by (simp add: mappingsOfDeal_cases matchesSome_def)

lemma directIdMapping_concat:
  "directIdMapping R deals companies = concat (map (mappingsOfDeal R companies) deals)"
  by (simp add: directIdMapping_def directId_foldl mappingsOfDeal_no_companies)

lemma mappingsOfDeal_confidence:
  "m \<in> set (mappingsOfDeal R cs d) \<Longrightarrow> confidence m = 100"
  by (cases "nonBlankRef R (dPrimaryCompanyId d)";
      cases "findCompany R cs (dPrimaryCompanyId d)")
    (simp_all add: mappingsOfDeal_def directIdStep_def Let_def makeMapping_def)

lemma length_concat_mappings:
  "length (concat (map (mappingsOfDeal R cs) ds)) + length (filter (unmappedDeal R cs) ds)
     = length ds"
  by (induction ds) (simp_all add: mappingsOfDeal_cases unmappedDeal_def)

lemma sum_unmapped:
  "sum_list (map (unmappedOfDeal R cs) ds) = length (filter (unmappedDeal R cs) ds)"
  by (induction ds) (simp_all add: unmappedOfDeal_cases unmappedDeal_def)

text \<open>
  Claim C2. The mappings returned are, in the order of the deals, what each deal adds to
  the array. A deal adds at most one mapping; it adds none exactly when its
  primary-company reference is blank (\<^verbatim>\<open>undefined\<close>, \<^verbatim>\<open>null\<close> or white
  space only) or no company's \<^verbatim>\<open>Record ID\<close> equals the reference as a string;
  otherwise it adds exactly one, which carries the deal's identifier and the identifier
  of a company whose identifier matches. No case raises. Every deal is thus either
  mapped or unmapped: the mappings and the unmapped deals add up to the deals (the
  coverage the statistics report), and when the loop runs its counter
  \<^verbatim>\<open>unmappedCount\<close> ends at the number of unmapped deals.
\<close>

theorem directIdMapping_per_deal:
  "directIdMapping R deals companies = concat (map (mappingsOfDeal R companies) deals)
   \<and> (\<forall>d. length (mappingsOfDeal R companies d) \<le> 1
        \<and> (mappingsOfDeal R companies d = [] \<longleftrightarrow>
             \<not> nonBlankRef R (dPrimaryCompanyId d) \<or> \<not> matchesSome R companies (dPrimaryCompanyId d))
        \<and> (mappingsOfDeal R companies d \<noteq> [] \<longrightarrow> length (mappingsOfDeal R companies d) = 1)
        \<and> (\<forall>m \<in> set (mappingsOfDeal R companies d).
             dealId m = dRecordID d
             \<and> (\<exists>c \<in> set companies. companyId m = cRecordID c
                  \<and> toString R (cRecordID c) = toString R (dPrimaryCompanyId d))))
   \<and> length (directIdMapping R deals companies) + length (filter (unmappedDeal R companies) deals)
       = length deals
   \<and> (deals \<noteq> [] \<and> companies \<noteq> [] \<longrightarrow>
        snd (foldl (directIdStep R companies) ([], 0) deals)
          = length (filter (unmappedDeal R companies) deals))"
proof -
  have per: "length (mappingsOfDeal R companies d) \<le> 1
        \<and> (mappingsOfDeal R companies d = [] \<longleftrightarrow>
             \<not> nonBlankRef R (dPrimaryCompanyId d) \<or> \<not> matchesSome R companies (dPrimaryCompanyId d))
        \<and> (mappingsOfDeal R companies d \<noteq> [] \<longrightarrow> length (mappingsOfDeal R companies d) = 1)
        \<and> (\<forall>m \<in> set (mappingsOfDeal R companies d).
             dealId m = dRecordID d
             \<and> (\<exists>c \<in> set companies. companyId m = cRecordID c
                  \<and> toString R (cRecordID c) = toString R (dPrimaryCompanyId d)))" for d
  proof (cases "nonBlankRef R (dPrimaryCompanyId d) \<and> matchesSome R companies (dPrimaryCompanyId d)")
    case True
    then obtain c where c: "findCompany R companies (dPrimaryCompanyId d) = Some c"
      using findCompany_None_iff [of R companies "dPrimaryCompanyId d"] by auto
    from c have "c \<in> set companies"
      and "toString R (cRecordID c) = toString R (dPrimaryCompanyId d)"
      by (auto simp add: findCompany_def find_Some_iff)
    with True c show ?thesis
      by (auto simp add: mappingsOfDeal_cases makeMapping_def)
  next
    case False
    then show ?thesis
      by (auto simp add: mappingsOfDeal_cases)
  qed
  have total: "length (directIdMapping R deals companies)
      + length (filter (unmappedDeal R companies) deals) = length deals"
    by (simp only: directIdMapping_concat length_concat_mappings)
  have counter: "snd (foldl (directIdStep R companies) ([], 0) deals)
      = length (filter (unmappedDeal R companies) deals)"
    by (simp add: directId_foldl sum_unmapped)
  from per directIdMapping_concat total counter show ?thesis by blast
qed

theorem directIdMapping_per_deal_witness:
  "nonBlankRef exampleRuntime (dPrimaryCompanyId exampleDeal)
   \<and> matchesSome exampleRuntime [exampleCompany] (dPrimaryCompanyId exampleDeal)
   \<and> mappingsOfDeal exampleRuntime [exampleCompany] exampleDeal
        = [makeMapping exampleRuntime exampleDeal exampleCompany]
   \<and> mappingsOfDeal exampleRuntime [exampleCompany] blankDeal = []
   \<and> directIdMapping exampleRuntime [exampleDeal, blankDeal] [exampleCompany]
        = [makeMapping exampleRuntime exampleDeal exampleCompany]"
proof -
  have nb: "nonBlankRef exampleRuntime (dPrimaryCompanyId exampleDeal)"
    by (simp add: nonBlankRef_def exampleDeal_def blankDeal_def toString_def trim_def isSpace_def)
  have ms: "matchesSome exampleRuntime [exampleCompany] (dPrimaryCompanyId exampleDeal)"
    by (simp add: matchesSome_def exampleDeal_def blankDeal_def exampleCompany_def toString_def)
  have one: "mappingsOfDeal exampleRuntime [exampleCompany] exampleDeal
        = [makeMapping exampleRuntime exampleDeal exampleCompany]"
    by (simp add: mappingsOfDeal_def directIdStep_def findCompany_def nonBlankRef_def Let_def
        exampleDeal_def blankDeal_def exampleCompany_def toString_def trim_def isSpace_def)
  have blank: "\<not> nonBlankRef exampleRuntime (dPrimaryCompanyId blankDeal)"
    by (simp add: nonBlankRef_def blankDeal_def)
  note inst = directIdMapping_per_deal [of exampleRuntime "[exampleDeal, blankDeal]" "[exampleCompany]"]
  from inst blank have none: "mappingsOfDeal exampleRuntime [exampleCompany] blankDeal = []"
    by blast
  from inst have "directIdMapping exampleRuntime [exampleDeal, blankDeal] [exampleCompany]
      = concat (map (mappingsOfDeal exampleRuntime [exampleCompany]) [exampleDeal, blankDeal])"
    by blast
  with one none nb ms show ?thesis by simp
qed

section \<open>The domain resolver, group by group\<close>

lemma childStep_foldl:
  "foldl (childStep k p) rels cs = rels @ map (makeRelationship k p) (otherMembers p cs)"
  by (induction cs arbitrary: rels) (simp_all add: childStep_def otherMembers_def)

lemma relationshipStep_append:
  "relationshipStep R ms rels e = rels @ relationshipsOfGroup R ms e"
  by (simp add: relationshipsOfGroup_def relationshipStep_def Let_def childStep_foldl
      split: sum.splits)

lemma relationship_foldl:
  "foldl (relationshipStep R ms) rels gs = rels @ concat (map (relationshipsOfGroup R ms) gs)"
proof (induction gs arbitrary: rels)
  case Nil
  then show ?case by simp
next
  case (Cons g gs)
  show ?case
    by (simp add: Cons.IH relationshipStep_append [of R ms rels g])
qed

lemma domainMapping_concat:
  "domainMapping R companies ms =
     concat (map (relationshipsOfGroup R ms) (buildDomainGroups companies))"
  by (simp add: domainMapping_def relationship_foldl)

lemma relationshipsOfGroup_cases:
  "relationshipsOfGroup R ms (k, g) =
     (if length g > 1 then
        (case groupParent R ms g of Inl e \<Rightarrow> []
         | Inr p \<Rightarrow> map (makeRelationship k p) (otherMembers p g))
      else [])"
proof (cases "selectParent (map (withMetrics R ms) g)")
  case (Inl e)
  then show ?thesis
    by (simp add: relationshipsOfGroup_def relationshipStep_def groupParent_def Let_def)
next
  case (Inr p)
  then have "relationshipStep R ms [] (k, g) =
      (if length g > 1 then foldl (childStep k p) [] g else [])"
    by (simp add: relationshipStep_def Let_def)
  with Inr show ?thesis
    by (simp add: relationshipsOfGroup_def groupParent_def childStep_foldl)
qed

lemma makeRelationship_confidence: "relConfidence (makeRelationship k p c) = 75"
  by (simp add: makeRelationship_def)

lemma relationshipsOfGroup_confidence:
  assumes "r \<in> set (relationshipsOfGroup R ms e)"
  shows "relConfidence r = 75"
proof -
  obtain k g where e: "e = (k, g)" by (cases e)
  show ?thesis
  proof (cases "groupParent R ms g")
    case (Inl a)
    with assms e show ?thesis
      by (cases "length g > 1") (simp_all add: relationshipsOfGroup_cases)
  next
    case (Inr p)
    with assms e show ?thesis
      by (cases "length g > 1")
        (auto simp add: relationshipsOfGroup_cases makeRelationship_confidence)
  qed
qed

text \<open>
  Claim C9. Every mapping the direct-ID resolver returns has confidence 100, and every
  relationship the domain resolver returns has confidence 75, whatever the deals, the
  companies and the mappings counted for the tie-break are.
\<close>

theorem confidence_is_constant:
  "(\<forall>m \<in> set (directIdMapping R deals companies). confidence m = 100)
   \<and> (\<forall>r \<in> set (domainMapping R companies ms). relConfidence r = 75)"
  by (auto simp add: directIdMapping_concat domainMapping_concat
      mappingsOfDeal_confidence relationshipsOfGroup_confidence)

theorem confidence_is_constant_witness:
  "directIdMapping exampleRuntime [exampleDeal] [exampleCompany] \<noteq> []
   \<and> domainMapping exampleRuntime [wwwCompany, shopCompany] [] \<noteq> []
   \<and> confidence (hd (directIdMapping exampleRuntime [exampleDeal] [exampleCompany])) = 100
   \<and> relConfidence (hd (domainMapping exampleRuntime [wwwCompany, shopCompany] [])) = 75"
proof -
  have a: "directIdMapping exampleRuntime [exampleDeal] [exampleCompany] \<noteq> []"
    by code_simp
  have b: "domainMapping exampleRuntime [wwwCompany, shopCompany] [] \<noteq> []"
    by code_simp
  from a have a': "hd (directIdMapping exampleRuntime [exampleDeal] [exampleCompany])
      \<in> set (directIdMapping exampleRuntime [exampleDeal] [exampleCompany])"
    by (rule hd_in_set)
  from b have b': "hd (domainMapping exampleRuntime [wwwCompany, shopCompany] [])
      \<in> set (domainMapping exampleRuntime [wwwCompany, shopCompany] [])"
    by (rule hd_in_set)
  from a b a' b' confidence_is_constant [of exampleRuntime "[exampleDeal]" "[exampleCompany]"]
    confidence_is_constant [of exampleRuntime "[]" "[wwwCompany, shopCompany]" "[]"]
  show ?thesis by blast
qed

section \<open>The clustering key\<close>






section \<open>Parent and children of a domain group\<close>

subsection \<open>Groups\<close>







subsection \<open>The reducer\<close>





lemma ranksBelow_Below: "ranksBelow a b \<Longrightarrow> ranksBelow b c \<Longrightarrow> ranksBelow a c"
  by (auto simp add: ranksBelow_def)















section \<open>Total revenue in the statistics\<close>

lemma foldl_plus_sum_list:
  "foldl (\<lambda>sum d. sum + f d) a ds = a + sum_list (map f ds)" for a :: real
  by (induction ds arbitrary: a) (simp_all add: add.assoc)

lemma totalDealValue_sum:
  "totalDealValue R deals = sum_list (map (\<lambda>d. parseFloatOr0 R (dBudget d)) deals)"
  by (simp add: totalDealValue_def foldl_plus_sum_list)

lemma totalRevenue_strategyStats:
  "totalRevenue (strategyStats R deals companies ms rels rv bm) = totalDealValue R deals"
  by (simp add: strategyStats_def Let_def)

text \<open>
  Claim C5. For every collection of deals (empty or not) the statistics' total revenue
  is the sum over the deals of \<^verbatim>\<open>parseFloat(deal['Budget']) || 0\<close>: a budget that
  does not parse and a budget that is absent add 0. The Amount field is never read:
  replacing every deal's Amount by anything leaves the total unchanged.
\<close>

theorem totalRevenue_sums_budget:
  "totalRevenue (strategyStats R deals companies ms rels rv bm)
     = sum_list (map (\<lambda>d. parseFloatOr0 R (dBudget d)) deals)
   \<and> (\<forall>d::deal. parseFloat R (dBudget d) = None \<longrightarrow> parseFloatOr0 R (dBudget d) = 0)
   \<and> (\<forall>d::deal. dBudget d = Undefined \<or> dBudget d = Null \<longrightarrow> parseFloatOr0 R (dBudget d) = 0)
   \<and> (\<forall>f. totalRevenue (strategyStats R (map (\<lambda>d. d \<lparr> dAmount := f d \<rparr>) deals) companies ms rels rv bm)
          = totalRevenue (strategyStats R deals companies ms rels rv bm))"
proof -
  have absent: "parseFloatOr0 R (dBudget d) = 0"
    if "dBudget d = Undefined \<or> dBudget d = Null" for d :: deal
    using that by (auto simp add: parseFloatOr0_def parseFloat_def)
  have unparsable: "parseFloatOr0 R (dBudget d) = 0"
    if "parseFloat R (dBudget d) = None" for d :: deal
    using that by (simp add: parseFloatOr0_def)
  have amount: "totalDealValue R (map (\<lambda>d. d \<lparr> dAmount := f d \<rparr>) deals) = totalDealValue R deals"
    for f
    by (simp add: totalDealValue_sum comp_def)
  have 1: "totalRevenue (strategyStats R deals companies ms rels rv bm)
      = sum_list (map (\<lambda>d. parseFloatOr0 R (dBudget d)) deals)"
    by (simp add: totalRevenue_strategyStats totalDealValue_sum)
  have 2: "\<forall>d::deal. parseFloat R (dBudget d) = None \<longrightarrow> parseFloatOr0 R (dBudget d) = 0"
    using unparsable by blast
  have 3: "\<forall>d::deal. dBudget d = Undefined \<or> dBudget d = Null \<longrightarrow> parseFloatOr0 R (dBudget d) = 0"
    using absent by blast
  have 4: "\<forall>f. totalRevenue (strategyStats R (map (\<lambda>d. d \<lparr> dAmount := f d \<rparr>) deals) companies ms rels rv bm)
      = totalRevenue (strategyStats R deals companies ms rels rv bm)"
    by (simp only: totalRevenue_strategyStats amount simp_thms)
  show ?thesis
    by (rule conjI [OF 1 conjI [OF 2 conjI [OF 3 4]]])
qed

theorem totalRevenue_sums_budget_witness:
  "parseFloat exampleRuntime (dBudget blankDeal) = None
   \<and> dBudget blankDeal = Undefined
   \<and> dAmount openDeal = Num 50
   \<and> totalRevenue (strategyStats exampleRuntime [exampleDeal, openDeal, blankDeal] [exampleCompany]
        [] [] [] \<lparr> accumulated = emptyBrandState, brandMetrics = [], brTotalBrands = 0,
                   totalBrandRevenue = 0 \<rparr>) = 5100"
proof -
  have a: "parseFloat exampleRuntime (dBudget blankDeal) = None"
    by (simp add: parseFloat_def blankDeal_def)
  have b: "dBudget blankDeal = Undefined" "dAmount openDeal = Num 50"
    by (simp_all add: blankDeal_def openDeal_def)
  have c: "sum_list (map (\<lambda>d. parseFloatOr0 exampleRuntime (dBudget d)) [exampleDeal, openDeal, blankDeal])
      = 5100"
    by (simp add: parseFloatOr0_def parseFloat_def exampleRuntime_def exampleDeal_def
        openDeal_def blankDeal_def)
  from totalRevenue_sums_budget [of exampleRuntime "[exampleDeal, openDeal, blankDeal]"
      "[exampleCompany]" "[]" "[]" "[]"
      "\<lparr> accumulated = emptyBrandState, brandMetrics = [], brTotalBrands = 0,
         totalBrandRevenue = 0 \<rparr>"]
  have "totalRevenue (strategyStats exampleRuntime [exampleDeal, openDeal, blankDeal] [exampleCompany]
        [] [] [] \<lparr> accumulated = emptyBrandState, brandMetrics = [], brTotalBrands = 0,
                   totalBrandRevenue = 0 \<rparr>)
      = sum_list (map (\<lambda>d. parseFloatOr0 exampleRuntime (dBudget d)) [exampleDeal, openDeal, blankDeal])"
    by (rule conjunct1)
  with a b c show ?thesis by (simp only: simp_thms)
qed

section \<open>Revenue validation by name: the three buckets\<close>

lemma update_set_cases:
  "e \<in> set (AList.update k v al) \<Longrightarrow> e \<in> set al \<or> e = (k, v)"
  by (induction al) (auto split: if_splits)

lemma foldlE_invariant:
  assumes step: "\<And>s x s'. P s \<Longrightarrow> f s x = Inr s' \<Longrightarrow> P s'"
    and "P s" and "foldlE f s xs = Inr t"
  shows "P t"
  using assms(2,3)
proof (induction xs arbitrary: s)
  case Nil
  then show ?case by simp
next
  case (Cons x xs)
  show ?case
  proof (cases "f s x")
    case (Inl e)
    with Cons.prems show ?thesis by simp
  next
    case (Inr s')
    with Cons.prems have "foldlE f s' xs = Inr t" by simp
    moreover from step Cons.prems(1) Inr have "P s'" by blast
    ultimately show ?thesis by (rule Cons.IH [rotated])
  qed
qed

lemma foldlE_returns_iff:
  assumes "\<And>s x. (\<exists>s'. f s x = Inr s') \<longleftrightarrow> ok x"
  shows "(\<exists>t. foldlE f s xs = Inr t) \<longleftrightarrow> (\<forall>x \<in> set xs. ok x)"
proof (induction xs arbitrary: s)
  case Nil
  show ?case by simp
next
  case (Cons x xs)
  show ?case
  proof (cases "f s x")
    case (Inl e)
    with assms [of s x] show ?thesis by simp
  next
    case (Inr s1)
    with assms [of s x] have "ok x" by blast
    with Cons.IH [of s1] Inr show ?thesis by simp
  qed
qed

lemma analysisStep_balanced:
  assumes inv: "\<forall>e \<in> set tbl. balanced (snd e)"
    and res: "analysisStep R d won tbl cname = Inr tbl'"
  shows "\<forall>e \<in> set tbl'. balanced (snd e)"
proof -
  define a0 where "a0 = (case map_of tbl cname of None \<Rightarrow> newAnalysis cname | Some a \<Rightarrow> a)"
  have b0: "balanced a0"
  proof (cases "map_of tbl cname")
    case None
    then show ?thesis by (simp add: a0_def newAnalysis_def balanced_def)
  next
    case (Some a)
    then have "(cname, a) \<in> set tbl" by (rule map_of_SomeD)
    with inv Some show ?thesis by (auto simp add: a0_def)
  qed
  from res obtain a2 where t': "tbl' = AList.update cname a2 tbl" and b2: "balanced a2"
  proof (cases won)
    case True
    with res b0 that show ?thesis
      by (auto simp add: analysisStep_def Let_def a0_def [symmetric] balanced_def)
  next
    case False
    show ?thesis
    proof (cases "guardedLowerIncludes (dealStageOf d) ''lost''")
      case (Inl e)
      with res False show ?thesis by (simp add: analysisStep_def Let_def)
    next
      case (Inr lost)
      with res False b0 that show ?thesis
        by (cases lost) (auto simp add: analysisStep_def Let_def a0_def [symmetric] balanced_def)
    qed
  qed
  show ?thesis
  proof
    fix e assume "e \<in> set tbl'"
    with t' have "e \<in> set tbl \<or> e = (cname, a2)" by (simp add: update_set_cases)
    with inv b2 show "balanced (snd e)" by auto
  qed
qed

lemma analysisDealStep_balanced:
  assumes inv: "\<forall>e \<in> set tbl. balanced (snd e)"
    and res: "analysisDealStep R tbl d = Inr tbl'"
  shows "\<forall>e \<in> set tbl'. balanced (snd e)"
proof (cases "dealIsClosedWon d")
  case (Inl e)
  with res show ?thesis by (simp add: analysisDealStep_def)
next
  case (Inr won)
  with res have "foldlE (analysisStep R d won) tbl (splitTags (dAssociatedCompany d)) = Inr tbl'"
    by (simp add: analysisDealStep_def)
  with inv show ?thesis
    by (rule foldlE_invariant [where P = "\<lambda>t. \<forall>e \<in> set t. balanced (snd e)", rotated])
      (rule analysisStep_balanced)
qed

text \<open>
  The validation returns exactly when no deal makes it call \<^verbatim>\<open>toLowerCase\<close> on
  a stage that is not a string.
\<close>

lemma lowerIncludes_returns:
  "(\<exists>w. lowerIncludes v t = Inr w) \<longleftrightarrow> isString v"
  by (cases v) (simp_all add: lowerIncludes_def isString_def)

lemma guarded_dealStageOf:
  "guardedLowerIncludes (dealStageOf d) t = lowerIncludes (dealStageOf d) t"
proof -
  have "truthy (dealStageOf d)"
    by (simp add: dealStageOf_def js_or_def truthy_def)
  then show ?thesis by (simp add: guardedLowerIncludes_def)
qed

lemma dealIsClosedWon_returns:
  "(\<exists>w. dealIsClosedWon d = Inr w) \<longleftrightarrow> stageSafe d"
  by (cases "dIsClosedWon d = Bool True")
    (auto simp add: dealIsClosedWon_def stageSafe_def guarded_dealStageOf lowerIncludes_returns)

lemma analysisStep_returns:
  assumes "dealIsClosedWon d = Inr w"
  shows "\<exists>tbl'. analysisStep R d w tbl cname = Inr tbl'"
proof (cases w)
  case True
  then show ?thesis by (simp add: analysisStep_def Let_def)
next
  case False
  with assms have "isString (dealStageOf d)"
    using dealIsClosedWon_returns [of d]
    by (auto simp add: stageSafe_def dealIsClosedWon_def split: if_splits)
  then have "\<exists>l. guardedLowerIncludes (dealStageOf d) ''lost'' = Inr l"
    by (simp add: guarded_dealStageOf lowerIncludes_returns)
  then obtain l where "guardedLowerIncludes (dealStageOf d) ''lost'' = Inr l" ..
  with False show ?thesis
    by (cases l) (simp_all add: analysisStep_def Let_def)
qed

lemma analysisDealStep_returns:
  "(\<exists>tbl'. analysisDealStep R tbl d = Inr tbl') \<longleftrightarrow> stageSafe d"
proof (cases "dealIsClosedWon d")
  case (Inl e)
  with dealIsClosedWon_returns [of d] show ?thesis
    by (simp add: analysisDealStep_def)
next
  case (Inr w)
  have "(\<exists>t. foldlE (analysisStep R d w) tbl (splitTags (dAssociatedCompany d)) = Inr t)
      \<longleftrightarrow> (\<forall>x \<in> set (splitTags (dAssociatedCompany d)). True)"
    by (rule foldlE_returns_iff) (simp add: analysisStep_returns [OF Inr])
  with Inr dealIsClosedWon_returns [of d] show ?thesis
    by (auto simp add: analysisDealStep_def)
qed

lemma revenueValidation_returns_iff:
  "(\<exists>rows. revenueValidation R deals = Inr rows) \<longleftrightarrow> (\<forall>d \<in> set deals. stageSafe d)"
proof -
  have "(\<exists>tbl. foldlE (analysisDealStep R) [] deals = Inr tbl) \<longleftrightarrow> (\<forall>d \<in> set deals. stageSafe d)"
    by (rule foldlE_returns_iff) (rule analysisDealStep_returns)
  moreover have "(\<exists>rows. revenueValidation R deals = Inr rows)
      \<longleftrightarrow> (\<exists>tbl. foldlE (analysisDealStep R) [] deals = Inr tbl)"
    by (cases "foldlE (analysisDealStep R) [] deals") (simp_all add: revenueValidation_def)
  ultimately show ?thesis by simp
qed

text \<open>
  Claim C10. In every row the name-keyed revenue validation returns, the won, open and
  lost counts add up to the deal count: each deal counted toward a company went into
  exactly one of the three buckets.
\<close>

theorem revenue_buckets_partition:
  assumes "revenueValidation R deals = Inr rows"
  shows "\<forall>r \<in> set rows. wonDeals r + openDeals r + lostDeals r = dealCount r"
proof -
  from assms obtain tbl where tbl: "foldlE (analysisDealStep R) [] deals = Inr tbl"
    and rows: "rows = filter (\<lambda>item. totalMediaBudget item > 0 \<or> totalPOAmount item > 0)
                 (map (\<lambda>entry. makeRevenueRow (snd entry)) tbl)"
    by (cases "foldlE (analysisDealStep R) [] deals") (simp_all add: revenueValidation_def)
  have step: "\<forall>e \<in> set s'. balanced (snd e)"
    if "\<forall>e \<in> set s. balanced (snd e)" and "analysisDealStep R s x = Inr s'" for s x s'
    using that by (rule analysisDealStep_balanced)
  have "\<forall>e \<in> set tbl. balanced (snd e)"
    using foldlE_invariant [where P = "\<lambda>t. \<forall>e \<in> set t. balanced (snd e)", OF step _ tbl]
    by simp
  then show ?thesis
    by (auto simp add: rows makeRevenueRow_def balanced_def)
qed

theorem revenue_buckets_partition_witness:
  "\<not> isl (revenueValidation exampleRuntime [wonDeal, openDeal])
   \<and> projr (revenueValidation exampleRuntime [wonDeal, openDeal]) \<noteq> []
   \<and> dealCount (hd (projr (revenueValidation exampleRuntime [wonDeal, openDeal]))) = 2
   \<and> wonDeals (hd (projr (revenueValidation exampleRuntime [wonDeal, openDeal])))
       + openDeals (hd (projr (revenueValidation exampleRuntime [wonDeal, openDeal])))
       + lostDeals (hd (projr (revenueValidation exampleRuntime [wonDeal, openDeal]))) = 2"
proof -
  let ?rv = "revenueValidation exampleRuntime [wonDeal, openDeal]"
  have ok: "\<not> isl ?rv" by code_simp
  have ne: "projr ?rv \<noteq> []" by code_simp
  have two: "dealCount (hd (projr ?rv)) = 2" by code_simp
  from ok have "?rv = Inr (projr ?rv)" by (cases ?rv) simp_all
  then have "\<forall>r \<in> set (projr ?rv). wonDeals r + openDeals r + lostDeals r = dealCount r"
    by (rule revenue_buckets_partition)
  moreover from ne have "hd (projr ?rv) \<in> set (projr ?rv)" by (rule hd_in_set)
  ultimately have "wonDeals (hd (projr ?rv)) + openDeals (hd (projr ?rv))
      + lostDeals (hd (projr ?rv)) = dealCount (hd (projr ?rv))"
    by blast
  with ok ne two show ?thesis by simp
qed

section \<open>Brand attribution\<close>

text \<open>
  When the aggregation returns, every brand's revenue total is the sum, over the deals,
  of the deal's full budget times the number of times the brand occurs among the deal's
  tags: a deal tagged with two brands adds its whole budget to both.
\<close>

lemma lookup0_addTo:
  "lookup0 (addTo k n obj) b = (if b = k then lookup0 obj k + n else lookup0 obj b)"
  by (simp add: lookup0_def addTo_def update_conv')

lemma brandStep_revenue:
  assumes "brandStep R d st b = Inr st'" and "b \<noteq> []"
  shows "lookup0 (brandRevenue st') x
    = lookup0 (brandRevenue st) x + (if x = b then dealRevenue R d else 0)"
proof (cases "timeSeriesStep R d b (brandTimeSeries st)")
  case (Inl e)
  with assms show ?thesis by (simp add: brandStep_def Let_def)
next
  case (Inr ts)
  with assms have "brandRevenue st' = addTo b (dealRevenue R d) (brandRevenue st)"
    by (auto simp add: brandStep_def Let_def)
  then show ?thesis by (simp add: lookup0_addTo)
qed

lemma brandStep_foldlE_revenue:
  assumes "foldlE (brandStep R d) st bs = Inr st'" and "\<forall>b \<in> set bs. b \<noteq> []"
  shows "lookup0 (brandRevenue st') x
    = lookup0 (brandRevenue st) x + real (count_list bs x) * dealRevenue R d"
  using assms
proof (induction bs arbitrary: st)
  case Nil
  then show ?case by simp
next
  case (Cons b bs)
  show ?case
  proof (cases "brandStep R d st b")
    case (Inl e)
    with Cons.prems show ?thesis by simp
  next
    case (Inr st1)
    with Cons.prems have rest: "foldlE (brandStep R d) st1 bs = Inr st'" by simp
    from Cons.prems have ne: "b \<noteq> []" "\<forall>b \<in> set bs. b \<noteq> []" by simp_all
    from Cons.IH [OF rest ne(2)] brandStep_revenue [OF Inr ne(1), of x]
    show ?thesis by (simp add: algebra_simps)
  qed
qed

lemma splitTags_nonempty: "\<forall>b \<in> set (splitTags raw). b \<noteq> []"
  by (cases raw) (simp_all add: splitTags_def)

lemma brandDealStep_revenue:
  assumes "brandDealStep R st d = Inr st'"
  shows "lookup0 (brandRevenue st') x
    = lookup0 (brandRevenue st) x
      + real (count_list (splitTags (dCampaignBrand d)) x) * dealRevenue R d"
  using assms unfolding brandDealStep_def
  by (rule brandStep_foldlE_revenue) (rule splitTags_nonempty)

lemma brandLoop_revenue_from:
  assumes "foldlE (brandDealStep R) st deals = Inr st'"
  shows "lookup0 (brandRevenue st') x
    = lookup0 (brandRevenue st) x
      + (\<Sum>d\<leftarrow>deals. real (count_list (splitTags (dCampaignBrand d)) x) * dealRevenue R d)"
  using assms
proof (induction deals arbitrary: st)
  case Nil
  then show ?case by simp
next
  case (Cons d deals)
  show ?case
  proof (cases "brandDealStep R st d")
    case (Inl e)
    with Cons.prems show ?thesis by simp
  next
    case (Inr st1)
    with Cons.prems have rest: "foldlE (brandDealStep R) st1 deals = Inr st'" by simp
    from Cons.IH [OF rest] brandDealStep_revenue [OF Inr, of x]
    show ?thesis by simp
  qed
qed

lemma brandMapping_full_budget_per_brand:
  assumes "brandMapping R deals = Inr res"
  shows "lookup0 (brandRevenue (accumulated res)) x
    = (\<Sum>d\<leftarrow>deals. real (count_list (splitTags (dCampaignBrand d)) x) * dealRevenue R d)"
proof -
  from assms obtain st where st: "brandLoop R deals = Inr st" and "accumulated res = st"
    by (cases "brandLoop R deals") (auto simp add: brandMapping_def)
  moreover from st have "lookup0 (brandRevenue st) x
    = lookup0 (brandRevenue emptyBrandState) x
      + (\<Sum>d\<leftarrow>deals. real (count_list (splitTags (dCampaignBrand d)) x) * dealRevenue R d)"
    unfolding brandLoop_def by (rule brandLoop_revenue_from)
  ultimately show ?thesis by (simp add: emptyBrandState_def lookup0_def)
qed

lemma splitTags_example: "splitTags (Str ''Acme;Zed'') = [''Acme'', ''Zed'']"
  by code_simp

text \<open>
  The aggregation returns exactly when no tagged deal carries a close date that is
  truthy and invalid; the only exception it raises is RangeError.
\<close>

lemma brandStep_returns:
  "b \<noteq> [] \<Longrightarrow>
   (\<exists>st'. brandStep R d st b = Inr st') \<longleftrightarrow> (\<not> truthy (dCloseDate d) \<or> isoMonth R (dCloseDate d) \<noteq> None)"
  by (cases "isoMonth R (dCloseDate d)")
    (simp_all add: brandStep_def timeSeriesStep_def Let_def)

lemma brandStep_error:
  "brandStep R d st b = Inl e \<Longrightarrow> e = RangeError"
  by (cases "isoMonth R (dCloseDate d)")
    (simp_all add: brandStep_def timeSeriesStep_def Let_def split: if_splits)

lemma foldlE_brandStep_returns:
  assumes "\<forall>b \<in> set bs. b \<noteq> []"
  shows "(\<exists>st'. foldlE (brandStep R d) st bs = Inr st')
    \<longleftrightarrow> (bs = [] \<or> \<not> truthy (dCloseDate d) \<or> isoMonth R (dCloseDate d) \<noteq> None)"
  using assms
proof (induction bs arbitrary: st)
  case Nil
  then show ?case by simp
next
  case (Cons b bs)
  then have ne: "b \<noteq> []" and rest: "\<forall>b \<in> set bs. b \<noteq> []" by simp_all
  show ?case
  proof (cases "brandStep R d st b")
    case (Inl e)
    with brandStep_returns [OF ne, of R d st] show ?thesis by simp
  next
    case (Inr st1)
    with brandStep_returns [OF ne, of R d st]
    have ok: "\<not> truthy (dCloseDate d) \<or> isoMonth R (dCloseDate d) \<noteq> None" by blast
    with Cons.IH [OF rest, of st1] Inr show ?thesis by simp
  qed
qed

lemma brandDealStep_returns:
  "(\<exists>st'. brandDealStep R st d = Inr st') \<longleftrightarrow> brandSafe R d"
  unfolding brandDealStep_def brandSafe_def
  by (rule foldlE_brandStep_returns) (cases "dCampaignBrand d", simp_all add: splitTags_def)

lemma brandMapping_returns_iff:
  "(\<exists>res. brandMapping R deals = Inr res) \<longleftrightarrow> (\<forall>d \<in> set deals. brandSafe R d)"
proof -
  have "(\<exists>st. brandLoop R deals = Inr st) \<longleftrightarrow> (\<forall>d \<in> set deals. brandSafe R d)"
    unfolding brandLoop_def by (rule foldlE_returns_iff) (rule brandDealStep_returns)
  moreover have "(\<exists>res. brandMapping R deals = Inr res) \<longleftrightarrow> (\<exists>st. brandLoop R deals = Inr st)"
    by (cases "brandLoop R deals") (simp_all add: brandMapping_def)
  ultimately show ?thesis by simp
qed

lemma undatedDeal_tags: "splitTags (dCampaignBrand undatedDeal) = [''Acme'', ''Zed'']"
  by (simp add: undatedDeal_def exampleDeal_def blankDeal_def splitTags_example)

lemma brandMapping_undated:
  assumes "isoMonth R (Str ''TBD'') = None"
  shows "brandMapping R [undatedDeal] = Inl RangeError"
proof -
  have "dCloseDate undatedDeal = Str ''TBD''" by (simp add: undatedDeal_def)
  with assms undatedDeal_tags show ?thesis
    by (simp add: brandMapping_def brandLoop_def brandDealStep_def brandStep_def
        timeSeriesStep_def truthy_def Let_def)
qed

text \<open>
  Claim C4 fails on a tagged deal whose close date is not a date. For the deal tagged
  \<^verbatim>\<open>Acme;Zed\<close> with budget 5000 and close date \<^verbatim>\<open>TBD\<close>, the time-series step
  of the first brand calls \<^verbatim>\<open>new Date('TBD').toISOString()\<close>, which raises
  RangeError: the aggregation is left before the budget reaches the total of
  \<^verbatim>\<open>Zed\<close>, and no totals are returned.
\<close>

theorem brandMapping_raises_on_invalid_close_date:
  "splitTags (dCampaignBrand undatedDeal) = [''Acme'', ''Zed'']
   \<and> dCloseDate undatedDeal = Str ''TBD''
   \<and> (isoMonth R (Str ''TBD'') = None \<longrightarrow> brandMapping R [undatedDeal] = Inl RangeError)"
  using undatedDeal_tags brandMapping_undated [of R]
  by (simp add: undatedDeal_def)

theorem brandMapping_raises_on_invalid_close_date_witness:
  "isoMonth exampleRuntime (Str ''TBD'') = None
   \<and> brandMapping exampleRuntime [undatedDeal] = Inl RangeError"
proof -
  have a: "isoMonth exampleRuntime (Str ''TBD'') = None"
    by (simp add: exampleRuntime_def)
  with brandMapping_raises_on_invalid_close_date [of exampleRuntime]
  show ?thesis by simp
qed

section \<open>The search filter\<close>

text \<open>
  On entries whose name and brand properties are strings or absent the filter does what
  the specification says: the empty term returns the sequence as it is, a term that is
  not empty keeps exactly the entries with a field that contains it ignoring case, and
  a term no field contains gives the empty sequence.
\<close>

lemma optLowerIncludes_searchable:
  "searchable v \<Longrightarrow> optLowerIncludes v (toLowerCase t) = Inr (specFieldMatches t v)"
  by (cases v) (simp_all add: searchable_def isString_def optLowerIncludes_def lowerIncludes_def
      specFieldMatches_def strIncludes_def)

lemma orElse_Inr: "orElse (Inr a) (Inr b) = Inr (a \<or> b)"
  by (simp add: orElse_def)

lemma relMatches_searchable:
  "relSearchable rel \<Longrightarrow> relMatches (toLowerCase t) rel = Inr (specRelMatches t rel)"
  by (simp add: relSearchable_def relMatches_def specRelMatches_def
      optLowerIncludes_searchable orElse_Inr)

lemma filterE_total:
  "\<forall>x \<in> set xs. p x = Inr (q x) \<Longrightarrow> filterE p xs = Inr (filter q xs)"
  by (induction xs) simp_all

lemma filteredRelationships_empty_term: "filteredRelationships [] combined = Inr combined"
  by (simp add: filteredRelationships_def)

lemma filteredRelationships_searchable:
  assumes "t \<noteq> []" and "\<forall>rel \<in> set combined. relSearchable rel"
  shows "filteredRelationships t combined = Inr (filter (specRelMatches t) combined)"
proof -
  from assms(2) have "\<forall>rel \<in> set combined.
      relMatches (toLowerCase t) rel = Inr (specRelMatches t rel)"
    by (simp add: relMatches_searchable)
  then have "filterE (relMatches (toLowerCase t)) combined = Inr (filter (specRelMatches t) combined)"
    by (rule filterE_total)
  with assms(1) show ?thesis by (simp add: filteredRelationships_def)
qed

lemma filteredRelationships_no_match:
  assumes "t \<noteq> []" and "\<forall>rel \<in> set combined. relSearchable rel"
    and "\<forall>rel \<in> set combined. \<not> specRelMatches t rel"
  shows "filteredRelationships t combined = Inr []"
  using assms by (simp add: filteredRelationships_searchable)

lemma combinedRelationships_eq:
  "combinedRelationships ms rels = map DealCompany ms @ map ParentChild rels"
proof -
  have a: "foldl (\<lambda>combined m. combined @ [DealCompany m]) acc ms = acc @ map DealCompany ms" for acc
    by (induction ms arbitrary: acc) simp_all
  have b: "foldl (\<lambda>combined rel. combined @ [ParentChild rel]) acc rels = acc @ map ParentChild rels"
    for acc
    by (induction rels arbitrary: acc) simp_all
  show ?thesis by (simp add: combinedRelationships_def a b)
qed

text \<open>
  Claim C7 fails on a mapping whose deal name is a number. The cell \<^verbatim>\<open>2024\<close> in the
  column \<^verbatim>\<open>Deal Name\<close> is typed as a number by the parser and kept by
  \<^verbatim>\<open>deal['Deal Name'] || 'Unnamed Deal'\<close>; the optional chain of the filter guards
  against \<^verbatim>\<open>undefined\<close> only, so with any search term that is not empty the call
  \<^verbatim>\<open>rel.dealName?.toLowerCase()\<close> raises TypeError instead of returning a sequence.
\<close>

theorem filter_raises_on_numeric_name:
  "dealName (makeMapping R yearNamedDeal exampleCompany) = Num 2024
   \<and> directIdMapping R [yearNamedDeal] [exampleCompany] = [makeMapping R yearNamedDeal exampleCompany]
   \<and> filteredRelationships ''acme''
        (combinedRelationships (directIdMapping R [yearNamedDeal] [exampleCompany]) [])
      = Inl TypeError"
proof -
  have m: "directIdMapping R [yearNamedDeal] [exampleCompany] = [makeMapping R yearNamedDeal exampleCompany]"
    by (simp add: directIdMapping_def directIdStep_def findCompany_def nonBlankRef_def Let_def
        yearNamedDeal_def exampleDeal_def blankDeal_def exampleCompany_def toString_def
        trim_def isSpace_def)
  have n: "dealName (makeMapping R yearNamedDeal exampleCompany) = Num 2024"
    by (simp add: makeMapping_def yearNamedDeal_def js_or_def truthy_def)
  have "relMatches (toLowerCase ''acme'') (DealCompany (makeMapping R yearNamedDeal exampleCompany))
      = Inl TypeError"
    by (simp add: relMatches_def relDealName_def n optLowerIncludes_def lowerIncludes_def orElse_def)
  with m n show ?thesis
    by (simp add: filteredRelationships_def combinedRelationships_def)
qed

section \<open>The accuracy score of the identifier-keyed validation\<close>

lemma makeValidationRow_fields:
  "declaredRevenue (makeValidationRow R e) = iDeclaredRevenue (snd e)"
  "calculatedRevenue (makeValidationRow R e) = iCalculatedRevenue (snd e)"
  "accuracy (makeValidationRow R e)
     = accuracyOf R (iDeclaredRevenue (snd e))
         (varianceOf R (iDeclaredRevenue (snd e)) (iCalculatedRevenue (snd e)))"
  by (simp_all add: makeValidationRow_def Let_def)

lemma accuracyOf_positive:
  assumes "toNumber R calculated = Some c"
  shows "accuracyOf R declared (varianceOf R declared calculated)
    = Some (case toNumber R declared of None \<Rightarrow> 0 | Some d \<Rightarrow> positiveAccuracy d c)"
  using assms
  by (cases "toNumber R declared")
    (simp_all add: accuracyOf_def varianceOf_def greaterThan0_def positiveAccuracy_def)

text \<open>
  Claim C8, as the specification states it, fails for a company that declares a negative
  revenue: the source tests \<^verbatim>\<open>declaredRevenue > 0\<close>, not non-zero. With a declared
  revenue of -100 and deals worth 50 the score is 0, where the specification's formula
  gives 250.
\<close>

theorem accuracy_counterexample:
  "revenueValidationById exampleRuntime [lossDeal] [lossCompany] \<noteq> []
   \<and> declaredRevenue (hd (revenueValidationById exampleRuntime [lossDeal] [lossCompany])) = Num (- 100)
   \<and> calculatedRevenue (hd (revenueValidationById exampleRuntime [lossDeal] [lossCompany])) = Num 50
   \<and> accuracy (hd (revenueValidationById exampleRuntime [lossDeal] [lossCompany])) = Some 0
   \<and> specAccuracy (- 100) 50 = 250
   \<and> accuracy (hd (revenueValidationById exampleRuntime [lossDeal] [lossCompany]))
       \<noteq> Some (specAccuracy (- 100) 50)"
  by code_simp

text \<open>
  Claim C8, amended. In every row the identifier-keyed validation returns, the accuracy
  is \<^verbatim>\<open>max(0, 100 - |declared - calculated| / declared * 100)\<close> when the declared
  revenue is greater than zero and 0 otherwise (also when the declared revenue has no
  numeric value); the calculated revenue of a returned row is a positive number.
\<close>

theorem accuracy_uses_positive_test:
  assumes "row \<in> set (revenueValidationById R deals companies)"
  shows "\<exists>c. toNumber R (calculatedRevenue row) = Some c \<and> 0 < c
     \<and> accuracy row
         = Some (case toNumber R (declaredRevenue row) of
                   None \<Rightarrow> 0 | Some d \<Rightarrow> positiveAccuracy d c)"
proof -
  from assms obtain e where row: "row = makeValidationRow R e"
    and pos: "greaterThan0 R (calculatedRevenue row)"
    by (auto simp add: revenueValidationById_def)
  from pos obtain c where c: "toNumber R (calculatedRevenue row) = Some c" and "0 < c"
    by (cases "toNumber R (calculatedRevenue row)") (simp_all add: greaterThan0_def)
  moreover from c have "accuracy row
      = Some (case toNumber R (declaredRevenue row) of None \<Rightarrow> 0 | Some d \<Rightarrow> positiveAccuracy d c)"
    by (simp add: row makeValidationRow_fields accuracyOf_positive)
  ultimately show ?thesis by blast
qed

theorem accuracy_uses_positive_test_witness:
  "revenueValidationById exampleRuntime [lossDeal] [lossCompany] \<noteq> []
   \<and> toNumber exampleRuntime
        (declaredRevenue (hd (revenueValidationById exampleRuntime [lossDeal] [lossCompany])))
       = Some (- 100)
   \<and> accuracy (hd (revenueValidationById exampleRuntime [lossDeal] [lossCompany]))
       = Some (positiveAccuracy (- 100) 50)"
proof -
  let ?rows = "revenueValidationById exampleRuntime [lossDeal] [lossCompany]"
  have ne: "?rows \<noteq> []" by code_simp
  then have "hd ?rows \<in> set ?rows" by (rule hd_in_set)
  from accuracy_uses_positive_test [OF this]
  obtain c where c: "toNumber exampleRuntime (calculatedRevenue (hd ?rows)) = Some c"
    and acc: "accuracy (hd ?rows)
      = Some (case toNumber exampleRuntime (declaredRevenue (hd ?rows)) of
                None \<Rightarrow> 0 | Some d \<Rightarrow> positiveAccuracy d c)"
    by blast
  have d: "toNumber exampleRuntime (declaredRevenue (hd ?rows)) = Some (- 100)" by code_simp
  have "toNumber exampleRuntime (calculatedRevenue (hd ?rows)) = Some 50" by code_simp
  with c have "c = 50" by simp
  with acc d ne show ?thesis by simp
qed

section \<open>Exceptions that leave a pass\<close>

lemma revenueValidation_numbered_stage:
  "revenueValidation R [numberedStageDeal] = Inl TypeError"
  by (simp add: revenueValidation_def analysisDealStep_def dealIsClosedWon_def
      guardedLowerIncludes_def lowerIncludes_def dealStageOf_def js_or_def truthy_def
      numberedStageDeal_def blankDeal_def)

lemma brandMapping_no_tags:
  "splitTags (dCampaignBrand d) = [] \<Longrightarrow> \<exists>res. brandMapping R [d] = Inr res"
  by (simp add: brandMapping_def brandLoop_def brandDealStep_def)

text \<open>
  Claim C1 fails. A deal whose stage cell is a number makes the revenue validation call
  \<^verbatim>\<open>dealStage.toLowerCase()\<close> on a number, and the pass ends in TypeError; a tagged
  deal whose close date is not a date makes the brand aggregation call
  \<^verbatim>\<open>toISOString\<close> on an invalid date, and the pass ends in RangeError. In the earlier
  build a domain cell that is a non-zero number raises TypeError in the domain grouping.
  None of the three is degraded to a default.
\<close>

theorem pass_raises:
  "reconciliationPass R searchTerm [numberedStageDeal] companies = Inl TypeError
   \<and> (isoMonth R (Str ''TBD'') = None
        \<longrightarrow> reconciliationPass R searchTerm [undatedDeal] companies = Inl RangeError)
   \<and> (\<forall>c n. n \<noteq> 0 \<longrightarrow> domainKeyEarlier (c \<lparr> cCompanyDomainName := Num n \<rparr>) = Inl TypeError)"
proof -
  have "splitTags (dCampaignBrand numberedStageDeal) = []"
    by (simp add: numberedStageDeal_def blankDeal_def splitTags_def)
  then obtain res where "brandMapping R [numberedStageDeal] = Inr res"
    using brandMapping_no_tags by blast
  then have 1: "reconciliationPass R searchTerm [numberedStageDeal] companies = Inl TypeError"
    by (simp add: reconciliationPass_def Let_def revenueValidation_numbered_stage)
  have 2: "reconciliationPass R searchTerm [undatedDeal] companies = Inl RangeError"
    if "isoMonth R (Str ''TBD'') = None"
    using that brandMapping_undated [of R]
    by (simp add: reconciliationPass_def Let_def)
  have 3: "domainKeyEarlier (c \<lparr> cCompanyDomainName := Num n \<rparr>) = Inl TypeError"
    if "n \<noteq> 0" for c :: company and n
    using that by (simp add: domainKeyEarlier_def truthy_def Let_def)
  from 1 2 3 show ?thesis by blast
qed

theorem pass_raises_witness:
  "isoMonth exampleRuntime (Str ''TBD'') = None
   \<and> reconciliationPass exampleRuntime '''' [undatedDeal] [exampleCompany] = Inl RangeError
   \<and> reconciliationPass exampleRuntime '''' [numberedStageDeal] [exampleCompany] = Inl TypeError
   \<and> domainKeyEarlier (exampleCompany \<lparr> cCompanyDomainName := Num 5 \<rparr>) = Inl TypeError"
proof -
  have a: "isoMonth exampleRuntime (Str ''TBD'') = None"
    by (simp add: exampleRuntime_def)
  have b: "(5::real) \<noteq> 0" by simp
  from a b pass_raises [of exampleRuntime "''''" "[exampleCompany]"]
  show ?thesis by blast
qed

end
